theory Spec2Isabelle
  imports Complex_Main
begin

section \<open>Python and numpy values\<close>

text \<open>
  The embedding is over the real numbers: every array entry is a \<open>real\<close>, so rounding,
  signed zeros and NaN entries are outside the model. Where numpy would go on with an
  \<open>inf\<close> or \<open>nan\<close> entry (a division by zero, the mean of an empty array) the model
  stops with \<open>NotANumber\<close>; that value marks the boundary of the model and is not a
  Python exception. All other constructors of \<open>error\<close> are the exceptions Python raises.
  A function that raises returns \<open>Inl\<close> and nothing else: the model does not say in what
  state an exception leaves the object.
\<close>

datatype error =
  TypeError | ValueError | AttributeError | IndexError | AssertionError
  | NotANumber | ExternalError

type_synonym vec = "real list"

text \<open>A two-dimensional array: its rows, and its number of columns (which the rows
  alone do not give when there are none). Its shape is \<open>(length (rows M), ncols M)\<close>.\<close>

record matrix =
  ncols :: nat
  rows :: "real list list"

definition shape_of :: "matrix \<Rightarrow> nat \<times> nat" where
  "shape_of M = (length (rows M), ncols M)"

definition wf_matrix :: "matrix \<Rightarrow> bool" where
  "wf_matrix M = list_all (\<lambda>r. length r = ncols M) (rows M)"

definition mcol :: "matrix \<Rightarrow> nat \<Rightarrow> vec" where
  "mcol M j = map (\<lambda>r. r ! j) (rows M)"

text \<open>\<open>M.T\<close>\<close>

definition mtranspose :: "matrix \<Rightarrow> matrix" where
  "mtranspose M = \<lparr>ncols = length (rows M), rows = map (mcol M) [0..<ncols M]\<rparr>"

definition inner :: "vec \<Rightarrow> vec \<Rightarrow> real" where
  "inner a b = sum_list (map2 (*) a b)"

text \<open>\<open>a @ b\<close> of two one-dimensional arrays.\<close>

definition np_dot_vv :: "vec \<Rightarrow> vec \<Rightarrow> error + real" where
  "np_dot_vv a b = (if length a = length b then Inr (inner a b) else Inl ValueError)"

text \<open>\<open>A.dot(v)\<close>, \<open>A @ v\<close>: a two-dimensional array times a one-dimensional one.\<close>

definition np_dot_mv :: "matrix \<Rightarrow> vec \<Rightarrow> error + vec" where
  "np_dot_mv M v =
     (if ncols M = length v then Inr (map (\<lambda>r. inner r v) (rows M)) else Inl ValueError)"

text \<open>\<open>v.dot(A)\<close>, \<open>v @ A\<close>.\<close>

definition np_dot_vm :: "vec \<Rightarrow> matrix \<Rightarrow> error + vec" where
  "np_dot_vm v M =
     (if length v = length (rows M)
      then Inr (map (\<lambda>j. inner v (mcol M j)) [0..<ncols M])
      else Inl ValueError)"

text \<open>\<open>A.dot(B)\<close> of two two-dimensional arrays.\<close>

definition np_dot_mm :: "matrix \<Rightarrow> matrix \<Rightarrow> error + matrix" where
  "np_dot_mm M N =
     (if ncols M = length (rows N)
      then Inr \<lparr>ncols = ncols N,
                rows = map (\<lambda>r. map (\<lambda>j. inner r (mcol N j)) [0..<ncols N]) (rows M)\<rparr>
      else Inl ValueError)"

text \<open>An elementwise operation on two one-dimensional arrays, with numpy's
  broadcasting: equal lengths, or one of the two of length one.\<close>

definition np_binop :: "(real \<Rightarrow> real \<Rightarrow> 'a) \<Rightarrow> vec \<Rightarrow> vec \<Rightarrow> error + 'a list" where
  "np_binop g a b =
     (if length a = length b then Inr (map2 g a b)
      else if length a = 1 then Inr (map (g (hd a)) b)
      else if length b = 1 then Inr (map (\<lambda>x. g x (hd b)) a)
      else Inl ValueError)"

definition np_add :: "vec \<Rightarrow> vec \<Rightarrow> error + vec" where
  "np_add a b = np_binop (+) a b"

definition np_sub :: "vec \<Rightarrow> vec \<Rightarrow> error + vec" where
  "np_sub a b = np_binop (-) a b"

definition np_mul :: "vec \<Rightarrow> vec \<Rightarrow> error + vec" where
  "np_mul a b = np_binop (*) a b"

text \<open>Elementwise division: numpy divides by zero to \<open>inf\<close> or \<open>nan\<close> with a warning.\<close>

definition np_divide :: "vec \<Rightarrow> vec \<Rightarrow> error + vec" where
  "np_divide a b =
     (case np_binop Pair a b of
        Inl e \<Rightarrow> Inl e
      | Inr ps \<Rightarrow>
          if list_ex (\<lambda>p. snd p = 0) ps then Inl NotANumber
          else Inr (map (\<lambda>p. fst p / snd p) ps))"

text \<open>\<open>w += r\<close> on one-dimensional arrays: the left array keeps its shape.\<close>

definition np_iadd :: "vec \<Rightarrow> vec \<Rightarrow> error + vec" where
  "np_iadd w r =
     (if length r = length w then Inr (map2 (+) w r)
      else if length r = 1 then Inr (map (\<lambda>x. x + hd r) w)
      else Inl ValueError)"

text \<open>\<open>np.linalg.norm(v)\<close>\<close>

definition np_norm :: "vec \<Rightarrow> real" where
  "np_norm v = sqrt (sum_list (map (\<lambda>x. x * x) v))"

text \<open>\<open>np.all(x == y)\<close> on one-dimensional arrays. Arrays whose shapes do not broadcast
  compare as the scalar \<open>False\<close> (numpy of the code's time, with a warning).\<close>

definition np_all_eq :: "vec \<Rightarrow> vec \<Rightarrow> bool" where
  "np_all_eq x y =
     (case np_binop (=) x y of Inl e \<Rightarrow> False | Inr bs \<Rightarrow> list_all (\<lambda>b. b) bs)"

text \<open>\<open>np.zeros(shape)\<close>, \<open>np.eye(n)\<close>, \<open>np.outer(u, u)\<close>, and the elementwise
  operations on arrays of one shape.\<close>

definition np_zeros :: "nat \<times> nat \<Rightarrow> matrix" where
  "np_zeros shp = \<lparr>ncols = snd shp, rows = replicate (fst shp) (replicate (snd shp) 0)\<rparr>"

definition np_eye :: "nat \<Rightarrow> matrix" where
  "np_eye n =
     \<lparr>ncols = n, rows = map (\<lambda>i. map (\<lambda>j. if i = j then 1 else 0) [0..<n]) [0..<n]\<rparr>"

definition np_outer :: "vec \<Rightarrow> vec \<Rightarrow> matrix" where
  "np_outer u v = \<lparr>ncols = length v, rows = map (\<lambda>x. map (\<lambda>y. x * y) v) u\<rparr>"

definition mscale :: "real \<Rightarrow> matrix \<Rightarrow> matrix" where
  "mscale c M = \<lparr>ncols = ncols M, rows = map (map (\<lambda>x. c * x)) (rows M)\<rparr>"

definition madd :: "matrix \<Rightarrow> matrix \<Rightarrow> matrix" where
  "madd M N = \<lparr>ncols = ncols M, rows = map2 (map2 (+)) (rows M) (rows N)\<rparr>"

text \<open>\<open>v.reshape((d, -1))\<close> of a one-dimensional array: \<open>d\<close> rows of equal length, in
  row-major order. numpy cannot infer the \<open>-1\<close> when \<open>d = 0\<close>.\<close>

definition reshape_rows :: "nat \<Rightarrow> vec \<Rightarrow> error + matrix" where
  "reshape_rows d v =
     (if d = 0 \<or> length v mod d \<noteq> 0 then Inl ValueError
      else Inr \<lparr>ncols = length v div d,
                rows = map (\<lambda>i. take (length v div d) (drop (i * (length v div d)) v))
                           [0..<d]\<rparr>)"

text \<open>\<open>np.hstack((M, N))\<close> of two two-dimensional arrays.\<close>

definition np_hstack :: "matrix \<Rightarrow> matrix \<Rightarrow> error + matrix" where
  "np_hstack M N =
     (if length (rows M) = length (rows N)
      then Inr \<lparr>ncols = ncols M + ncols N, rows = map2 (@) (rows M) (rows N)\<rparr>
      else Inl ValueError)"

text \<open>A value a Python parameter can be bound to, where the source passes something
  other than the array or number the parameter's name promises.\<close>

datatype pyval = PyController | PyFloat real | PyArray vec

text \<open>\<open>len(x)\<close>\<close>

definition py_len :: "pyval \<Rightarrow> error + nat" where
  "py_len x = (case x of PyArray a \<Rightarrow> Inr (length a) | _ \<Rightarrow> Inl TypeError)"

text \<open>The value as an operand of numpy's elementwise arithmetic: a scalar broadcasts
  as a one-element array does; an arbitrary object has no arithmetic.\<close>

definition as_operand :: "pyval \<Rightarrow> error + vec" where
  "as_operand x =
     (case x of PyFloat h \<Rightarrow> Inr [h] | PyArray a \<Rightarrow> Inr a | PyController \<Rightarrow> Inl TypeError)"

section \<open>linalg.py\<close>

subsection \<open>MatrixWrapper\<close>

text \<open>What \<open>MatrixWrapper.__init__\<close> is given: an array, or (in \<open>_transpose\<close>) the bound
  method \<open>self.A.transpose\<close>, which has no \<open>shape\<close>.\<close>

datatype ctor_arg = ArrayArg matrix | BoundMethod

text \<open>The summands of a \<open>MatrixSum\<close>: a dense \<open>np.ndarray\<close> or a \<open>MatrixWrapper\<close> of one.\<close>

datatype summand = Ndarray matrix | Wrapped matrix

record matrixsum =
  shape :: "nat \<times> nat"
  matrices :: "summand list"

text \<open>The operand of \<open>_matmat\<close> and \<open>_rmatmat\<close>: a dense array or a \<open>MatrixSum\<close>, the two
  cases the source tells apart.\<close>

datatype operand = DenseArg matrix | SumArg matrixsum

definition MatrixWrapper_init :: "ctor_arg \<Rightarrow> error + summand" where
  "MatrixWrapper_init a =
     (case a of ArrayArg M \<Rightarrow> Inr (Wrapped M) | BoundMethod \<Rightarrow> Inl AttributeError)"

definition MatrixWrapper_matvec :: "matrix \<Rightarrow> vec \<Rightarrow> error + vec" where
  "MatrixWrapper_matvec A v = np_dot_mv A v"

definition MatrixWrapper_rmatvec :: "matrix \<Rightarrow> vec \<Rightarrow> error + vec" where
  "MatrixWrapper_rmatvec A v = np_dot_vm v A"

definition MatrixWrapper_matmat :: "matrix \<Rightarrow> operand \<Rightarrow> error + summand" where
  "MatrixWrapper_matmat A other =
     (case other of
        SumArg S \<Rightarrow> Inl ValueError
      | DenseArg B \<Rightarrow>
          (case np_dot_mm A B of
             Inl e \<Rightarrow> Inl e
           | Inr C \<Rightarrow> MatrixWrapper_init (ArrayArg C)))"

definition MatrixWrapper_rmatmat :: "matrix \<Rightarrow> operand \<Rightarrow> error + summand" where
  "MatrixWrapper_rmatmat A other =
     (case other of
        SumArg S \<Rightarrow> Inl ValueError
      | DenseArg B \<Rightarrow>
          (case np_dot_mm B A of
             Inl e \<Rightarrow> Inl e
           | Inr C \<Rightarrow> MatrixWrapper_init (ArrayArg C)))"

text \<open>\<open>MatrixWrapper(self.A.transpose)\<close>: the method itself, not its result.\<close>

definition MatrixWrapper_transpose :: "matrix \<Rightarrow> error + summand" where
  "MatrixWrapper_transpose A = MatrixWrapper_init BoundMethod"

text \<open>\<open>MatrixWrapper(self.A.conj().T)\<close>; conjugation is the identity on real entries.\<close>

definition MatrixWrapper_adjoint :: "matrix \<Rightarrow> error + summand" where
  "MatrixWrapper_adjoint A = MatrixWrapper_init (ArrayArg (mtranspose A))"

subsection \<open>NumericalHessian\<close>

text \<open>
  The operator's attributes \<open>func\<close>, \<open>x0\<close>, \<open>g0\<close>, \<open>dxL\<close>, \<open>threepoint\<close> and \<open>calls\<close>,
  prefixed because the controller has attributes of the same names. \<open>func\<close> is the
  external potential: it is given the state \<open>'w\<close> of everything it can read and
  change, and returns that state with the energy and the gradient, or raises.
  \<open>dxL\<close> is whatever the constructor was given.
\<close>

record 'w numhess =
  nh_func :: "'w \<Rightarrow> vec \<Rightarrow> error + ('w \<times> real \<times> vec)"
  nh_x0 :: vec
  nh_g0 :: vec
  nh_dxL :: pyval
  nh_threepoint :: bool
  nh_calls :: nat
  nh_shape :: "nat \<times> nat"

definition NumericalHessian_init ::
  "('w \<Rightarrow> vec \<Rightarrow> error + ('w \<times> real \<times> vec)) \<Rightarrow> vec \<Rightarrow> vec \<Rightarrow> pyval \<Rightarrow> bool \<Rightarrow> 'w numhess"
where
  "NumericalHessian_init fn x g h tp =
     \<lparr>nh_func = fn, nh_x0 = x, nh_g0 = g, nh_dxL = h, nh_threepoint = tp,
      nh_calls = 0, nh_shape = (length x, length x)\<rparr>"

text \<open>\<open>self.dxL * v.ravel() / vnorm\<close>\<close>

definition probe_step :: "pyval \<Rightarrow> vec \<Rightarrow> error + vec" where
  "probe_step h v =
     (case as_operand h of
        Inl e \<Rightarrow> Inl e
      | Inr ha \<Rightarrow>
          (case np_mul ha v of
             Inl e \<Rightarrow> Inl e
           | Inr hv \<Rightarrow> np_divide hv [np_norm v]))"

text \<open>\<open>vnorm * (gplus - gminus) / (2 * self.dxL)\<close>\<close>

definition central_quotient :: "real \<Rightarrow> vec \<Rightarrow> vec \<Rightarrow> pyval \<Rightarrow> error + vec" where
  "central_quotient vnorm gplus gminus h =
     (case np_sub gplus gminus of
        Inl e \<Rightarrow> Inl e
      | Inr dg \<Rightarrow>
          (case as_operand h of
             Inl e \<Rightarrow> Inl e
           | Inr ha \<Rightarrow> np_divide (map (\<lambda>x. vnorm * x) dg) (map (\<lambda>x. 2 * x) ha)))"

text \<open>\<open>vnorm * ((gplus - self.g0) / self.dxL).reshape(v.shape)\<close>: the reshape needs as
  many entries as \<open>v\<close> has.\<close>

definition forward_quotient :: "real \<Rightarrow> vec \<Rightarrow> vec \<Rightarrow> pyval \<Rightarrow> nat \<Rightarrow> error + vec" where
  "forward_quotient vnorm gplus g h n =
     (case np_sub gplus g of
        Inl e \<Rightarrow> Inl e
      | Inr dg \<Rightarrow>
          (case as_operand h of
             Inl e \<Rightarrow> Inl e
           | Inr ha \<Rightarrow>
               (case np_divide dg ha of
                  Inl e \<Rightarrow> Inl e
                | Inr q \<Rightarrow>
                    if length q = n then Inr (map (\<lambda>x. vnorm * x) q) else Inl ValueError)))"

definition NumericalHessian_matvec ::
  "'w numhess \<Rightarrow> 'w \<Rightarrow> vec \<Rightarrow> error + ('w numhess \<times> 'w \<times> vec)"
where
  "NumericalHessian_matvec op w v =
     (let op1 = op\<lparr>nh_calls := nh_calls op + 1\<rparr>;
          vnorm = np_norm v
      in case probe_step (nh_dxL op1) v of
           Inl e \<Rightarrow> Inl e
         | Inr st \<Rightarrow>
        (case np_add (nh_x0 op1) st of
           Inl e \<Rightarrow> Inl e
         | Inr xplus \<Rightarrow>
        (case nh_func op1 w xplus of
           Inl e \<Rightarrow> Inl e
         | Inr (w1, fplus, gplus) \<Rightarrow>
             if nh_threepoint op1 then
               (case probe_step (nh_dxL op1) v of
                  Inl e \<Rightarrow> Inl e
                | Inr st2 \<Rightarrow>
               (case np_sub (nh_x0 op1) st2 of
                  Inl e \<Rightarrow> Inl e
                | Inr xminus \<Rightarrow>
               (case nh_func op1 w1 xminus of
                  Inl e \<Rightarrow> Inl e
                | Inr (w2, fminus, gminus) \<Rightarrow>
                    (case central_quotient vnorm gplus gminus (nh_dxL op1) of
                       Inl e \<Rightarrow> Inl e
                     | Inr r \<Rightarrow> Inr (op1, w2, r)))))
             else
               (case forward_quotient vnorm gplus (nh_g0 op1) (nh_dxL op1) (length v) of
                  Inl e \<Rightarrow> Inl e
                | Inr r \<Rightarrow> Inr (op1, w1, r)))))"

text \<open>A potential that counts its own evaluations: the state is paired with the number
  of evaluations the potential has completed.\<close>

definition counted ::
  "('w \<Rightarrow> vec \<Rightarrow> error + ('w \<times> real \<times> vec)) \<Rightarrow> nat \<times> 'w \<Rightarrow> vec \<Rightarrow> error + ((nat \<times> 'w) \<times> real \<times> vec)"
where
  "counted fn nw x =
     (case fn (snd nw) x of
        Inl e \<Rightarrow> Inl e
      | Inr (w', e, g) \<Rightarrow> Inr ((Suc (fst nw), w'), e, g))"

subsection \<open>ProjectedMatrix\<close>

text \<open>
  \<open>pm_A\<close> is the state of the wrapped operator \<open>self.A\<close> (with everything its \<open>dot\<close>
  can change); \<open>A.dot\<close> itself is a parameter of \<open>ProjectedMatrix_dot\<close>, since the
  wrapped operator is whatever the caller passes. The reduced vector \<open>v_m\<close> is a
  one-dimensional array.
\<close>

record 'a projmat =
  pm_A :: 'a
  Tm :: matrix
  dtrue :: nat
  dproj :: nat
  Vs :: matrix
  AVs :: matrix

definition ProjectedMatrix_init :: "'a \<Rightarrow> matrix \<Rightarrow> 'a projmat" where
  "ProjectedMatrix_init a T =
     \<lparr>pm_A = a, Tm = T, dtrue = length (rows T), dproj = ncols T,
      Vs = \<lparr>ncols = 0, rows = replicate (length (rows T)) []\<rparr>,
      AVs = \<lparr>ncols = 0, rows = replicate (length (rows T)) []\<rparr>\<rparr>"

definition ProjectedMatrix_dot ::
  "('a \<Rightarrow> vec \<Rightarrow> error + ('a \<times> vec)) \<Rightarrow> 'a projmat \<Rightarrow> vec \<Rightarrow> error + ('a projmat \<times> vec)"
where
  "ProjectedMatrix_dot A_dot P v_m =
     (case np_dot_mv (Tm P) v_m of
        Inl e \<Rightarrow> Inl e
      | Inr v \<Rightarrow>
     (case reshape_rows (dtrue P) v of
        Inl e \<Rightarrow> Inl e
      | Inr vcol \<Rightarrow>
     (case np_hstack (Vs P) vcol of
        Inl e \<Rightarrow> Inl e
      | Inr Vs' \<Rightarrow>
     (case A_dot (pm_A P) v of
        Inl e \<Rightarrow> Inl e
      | Inr (a', w) \<Rightarrow>
     (case reshape_rows (dtrue P) w of
        Inl e \<Rightarrow> Inl e
      | Inr wcol \<Rightarrow>
     (case np_hstack (AVs P) wcol of
        Inl e \<Rightarrow> Inl e
      | Inr AVs' \<Rightarrow>
     (case np_dot_mv (mtranspose (Tm P)) w of
        Inl e \<Rightarrow> Inl e
      | Inr r \<Rightarrow> Inr (P\<lparr>pm_A := a', Vs := Vs', AVs := AVs'\<rparr>, r))))))))"

text \<open>A sequence of applies, each on the operator the previous one left.\<close>

fun ProjectedMatrix_dots ::
  "('a \<Rightarrow> vec \<Rightarrow> error + ('a \<times> vec)) \<Rightarrow> 'a projmat \<Rightarrow> vec list \<Rightarrow> error + 'a projmat"
where
  "ProjectedMatrix_dots A_dot P [] = Inr P"
| "ProjectedMatrix_dots A_dot P (v # vs) =
     (case ProjectedMatrix_dot A_dot P v of
        Inl e \<Rightarrow> Inl e
      | Inr (P', r) \<Rightarrow> ProjectedMatrix_dots A_dot P' vs)"

subsection \<open>MatrixSum\<close>

definition summand_shape :: "summand \<Rightarrow> nat \<times> nat" where
  "summand_shape m = (case m of Ndarray M \<Rightarrow> shape_of M | Wrapped M \<Rightarrow> shape_of M)"

text \<open>The constructor's arguments: an operator, or a \<open>MatrixSum\<close> whose summands are
  spliced in.\<close>

datatype sum_arg = Plain summand | Nested matrixsum

definition flatten_args :: "sum_arg list \<Rightarrow> summand list" where
  "flatten_args args =
     concat (map (\<lambda>a. case a of Nested S \<Rightarrow> matrices S | Plain m \<Rightarrow> [m]) args)"

text \<open>The constructor's second loop: \<open>mnum\<close> is the dense accumulator, \<open>acc\<close> is
  \<open>self.matrices\<close>. Every array of the model has dtype float64, so the dtype assertion
  holds and only the shape assertion is left.\<close>

fun init_loop ::
  "nat \<times> nat \<Rightarrow> summand list \<Rightarrow> matrix option \<Rightarrow> summand list
     \<Rightarrow> error + (matrix option \<times> summand list)"
where
  "init_loop shp [] mnum acc = Inr (mnum, acc)"
| "init_loop shp (m # ms) mnum acc =
     (if summand_shape m \<noteq> shp then Inl AssertionError
      else case m of
             Ndarray M \<Rightarrow>
               init_loop shp ms
                 (Some (madd (case mnum of None \<Rightarrow> np_zeros shp | Some Z \<Rightarrow> Z) M)) acc
           | Wrapped M \<Rightarrow> init_loop shp ms mnum (acc @ [m]))"

definition MatrixSum_init :: "sum_arg list \<Rightarrow> error + matrixsum" where
  "MatrixSum_init args =
     (case flatten_args args of
        [] \<Rightarrow> Inl IndexError
      | m0 # ms \<Rightarrow>
          (case init_loop (summand_shape m0) (m0 # ms) None [] of
             Inl e \<Rightarrow> Inl e
           | Inr (mnum, acc) \<Rightarrow>
               Inr \<lparr>shape = summand_shape m0,
                    matrices = acc @ (case mnum of None \<Rightarrow> [] | Some Z \<Rightarrow> [Ndarray Z])\<rparr>))"

text \<open>\<open>matrix.dot(v)\<close> for a summand: an array's own product, or the wrapper's
  \<open>matvec\<close> after scipy's dimension check; both raise ValueError on a mismatch.\<close>

definition summand_dot :: "summand \<Rightarrow> vec \<Rightarrow> error + vec" where
  "summand_dot m v =
     (case m of Ndarray M \<Rightarrow> np_dot_mv M v | Wrapped M \<Rightarrow> MatrixWrapper_matvec M v)"

fun matvec_loop :: "summand list \<Rightarrow> vec \<Rightarrow> vec \<Rightarrow> error + vec" where
  "matvec_loop [] v w = Inr w"
| "matvec_loop (m # ms) v w =
     (case summand_dot m v of
        Inl e \<Rightarrow> Inl e
      | Inr r \<Rightarrow> (case np_iadd w r of Inl e \<Rightarrow> Inl e | Inr w' \<Rightarrow> matvec_loop ms v w'))"

definition MatrixSum_matvec :: "matrixsum \<Rightarrow> vec \<Rightarrow> error + vec" where
  "MatrixSum_matvec S v = matvec_loop (matrices S) v (replicate (length v) 0)"

definition MatrixSum_adjoint :: "matrixsum \<Rightarrow> matrixsum" where
  "MatrixSum_adjoint S = S"

definition MatrixSum_transpose :: "matrixsum \<Rightarrow> matrixsum" where
  "MatrixSum_transpose S = S"

text \<open>The adjoint of a sum, summand by summand, for comparison: the sum of the
  summands' adjoints (transposes, the entries being real).\<close>

definition summand_adjoint :: "summand \<Rightarrow> summand" where
  "summand_adjoint m =
     (case m of Ndarray M \<Rightarrow> Ndarray (mtranspose M) | Wrapped M \<Rightarrow> Wrapped (mtranspose M))"

definition termwise_adjoint :: "matrixsum \<Rightarrow> matrixsum" where
  "termwise_adjoint S =
     \<lparr>shape = (snd (shape S), fst (shape S)), matrices = map summand_adjoint (matrices S)\<rparr>"

definition summand_matrix :: "summand \<Rightarrow> matrix" where
  "summand_matrix m = (case m of Ndarray M \<Rightarrow> M | Wrapped M \<Rightarrow> M)"

section \<open>Invariants and concrete inputs\<close>

text \<open>What \<open>ProjectedMatrix.__init__\<close> establishes and \<open>dot\<close> keeps: \<open>dtrue\<close> is the
  number of rows of \<open>Tm\<close>, and both histories are arrays of \<open>dtrue\<close> rows.\<close>

definition pm_inv :: "'a projmat \<Rightarrow> bool" where
  "pm_inv P =
     (dtrue P = length (rows (Tm P)) \<and> wf_matrix (Vs P) \<and> wf_matrix (AVs P)
      \<and> length (rows (Vs P)) = dtrue P \<and> length (rows (AVs P)) = dtrue P)"

text \<open>A wrapped operator that is a dense array: its \<open>dot\<close> changes nothing.\<close>

definition dense_dot :: "matrix \<Rightarrow> unit \<Rightarrow> vec \<Rightarrow> error + (unit \<times> vec)" where
  "dense_dot M a v = (case np_dot_mv M v of Inl e \<Rightarrow> Inl e | Inr w \<Rightarrow> Inr (a, w))"

definition diag23 :: matrix where
  "diag23 = \<lparr>ncols = 2, rows = [[2, 0], [0, 3]]\<rparr>"

definition first_axis :: matrix where
  "first_axis = \<lparr>ncols = 1, rows = [[1], [0]]\<rparr>"

definition upper2 :: matrix where
  "upper2 = \<lparr>ncols = 2, rows = [[0, 1], [0, 0]]\<rparr>"

definition lower2 :: matrix where
  "lower2 = \<lparr>ncols = 2, rows = [[0, 0], [1, 0]]\<rparr>"

text \<open>The sum of the two matrices above, each the transpose of the other, as the
  constructor builds it.\<close>

definition mixed_sum :: matrixsum where
  "mixed_sum = \<lparr>shape = (2, 2), matrices = [Wrapped upper2, Wrapped lower2]\<rparr>"

definition sym2 :: matrix where
  "sym2 = \<lparr>ncols = 2, rows = [[2, 1], [1, 2]]\<rparr>"

text \<open>The potential \<open>|x|\<^sup>2 / 2\<close>, whose gradient is \<open>x\<close>; it has no state.\<close>

definition quad_pot :: "unit \<Rightarrow> vec \<Rightarrow> error + (unit \<times> real \<times> vec)" where
  "quad_pot w x = Inr (w, inner x x / 2, x)"

text \<open>The operator of the two definitions above after one apply to \<open>[1]\<close>, and after a
  second apply to \<open>[3]\<close>.\<close>

definition probes_1 :: "unit projmat" where
  "probes_1 = (ProjectedMatrix_init () first_axis)
     \<lparr>Vs := \<lparr>ncols = 1, rows = [[1], [0]]\<rparr>, AVs := \<lparr>ncols = 1, rows = [[2], [0]]\<rparr>\<rparr>"

definition probes_2 :: "unit projmat" where
  "probes_2 = (ProjectedMatrix_init () first_axis)
     \<lparr>Vs := \<lparr>ncols = 2, rows = [[1, 3], [0, 0]]\<rparr>,
      AVs := \<lparr>ncols = 2, rows = [[2, 6], [0, 0]]\<rparr>\<rparr>"

section \<open>sella_old.py: the generic controller MinMode\<close>

text \<open>A numpy float that may be \<open>inf\<close> or \<open>nan\<close>: what a scalar division returns.\<close>

datatype npfloat = Finite real | NonFinite

definition np_true_divide :: "real \<Rightarrow> real \<Rightarrow> npfloat" where
  "np_true_divide a b = (if b = 0 then NonFinite else Finite (a / b))"

text \<open>An array argument of the external Hessian update: it is called with two vectors
  (\<open>f_update\<close>) and with two matrices (\<open>f_minmode\<close>).\<close>

datatype ndarray = Arr1 vec | Arr2 matrix

text \<open>
  The collaborators that are not in the repository's files, as parameters: the potential
  \<open>self.f\<close> (with the state \<open>'w\<close> of everything it can change), \<open>update_H\<close>, scipy's
  \<open>eigh\<close>, and the eigensolver \<open>self.minmode\<close>, which is given the operator, the
  potential's state, \<open>maxres\<close>, the preconditioner \<open>P\<close>, the basis \<open>T\<close> and the shift, and
  returns the operator and the potential's state as it left them with \<open>lams, Vs, AVs\<close>.
\<close>

record 'w externals =
  pot :: "'w \<Rightarrow> vec \<Rightarrow> error + ('w \<times> real \<times> vec)"
  update_H :: "matrix option \<Rightarrow> ndarray \<Rightarrow> ndarray \<Rightarrow> error + matrix"
  eigh :: "matrix \<Rightarrow> error + (vec \<times> matrix)"
  minmode :: "'w numhess \<Rightarrow> 'w \<Rightarrow> real \<Rightarrow> matrix \<Rightarrow> matrix \<Rightarrow> real
                \<Rightarrow> error + ('w numhess \<times> 'w \<times> vec \<times> matrix \<times> matrix)"

text \<open>
  The controller's attributes. \<open>world\<close> is not an attribute: it is the state of the
  potential. \<open>dim\<close> is \<open>self.d\<close> and \<open>Hess\<close> is \<open>self.H\<close>; Python's \<open>None\<close> is the option
  \<open>None\<close>. The functions \<open>self.f\<close> and \<open>self.minmode\<close> are in the record above, and
  \<open>self.constraints\<close>, which the generic controller leaves at \<open>None\<close>, is an attribute of
  the Cartesian controller below.
\<close>

record 'w MinMode =
  world :: 'w
  dim :: int
  Hess :: "matrix option"
  flast :: "real option"
  xlast2 :: "vec option"
  xlast :: "vec option"
  glast :: "vec option"
  shift :: real
  shift_factor :: real
  calls :: nat
  df :: "real option"
  df_pred :: "real option"
  ratio :: "npfloat option"
  v0 :: "vec option"
  lams :: "vec option"
  vecs :: "matrix option"

text \<open>The test of the first line of \<open>f_update\<close>:
  \<open>self.xlast is not None and np.all(x == self.xlast)\<close>.\<close>

definition is_cached :: "('w, 'z) MinMode_scheme \<Rightarrow> vec \<Rightarrow> bool" where
  "is_cached s x = (case xlast s of None \<Rightarrow> False | Some xl \<Rightarrow> np_all_eq x xl)"

text \<open>Lines 68 to 71: \<open>df\<close>, \<open>dx\<close>, \<open>df_pred\<close> and \<open>ratio\<close>. On \<open>None\<close>, \<open>x - None\<close> is a
  TypeError, \<open>None.T\<close> an AttributeError, and \<open>dx.T @ None\<close> a ValueError of \<open>matmul\<close>.\<close>

definition quadratic_model ::
  "('w, 'z) MinMode_scheme \<Rightarrow> vec \<Rightarrow> real \<Rightarrow> real \<Rightarrow> error + ('w, 'z) MinMode_scheme"
where
  "quadratic_model s x fv fl =
     (let s1 = s\<lparr>df := Some (fv - fl)\<rparr> in
      case xlast s1 of
        None \<Rightarrow> Inl TypeError
      | Some xl \<Rightarrow>
     (case np_sub x xl of
        Inl e \<Rightarrow> Inl e
      | Inr dx \<Rightarrow>
     (case glast s1 of
        None \<Rightarrow> Inl AttributeError
      | Some gl \<Rightarrow>
     (case np_dot_vv gl dx of
        Inl e \<Rightarrow> Inl e
      | Inr gd \<Rightarrow>
     (case Hess s1 of
        None \<Rightarrow> Inl ValueError
      | Some H \<Rightarrow>
     (case np_dot_vm dx H of
        Inl e \<Rightarrow> Inl e
      | Inr t \<Rightarrow>
     (case np_dot_vv t dx of
        Inl e \<Rightarrow> Inl e
      | Inr q \<Rightarrow>
          Inr (s1\<lparr>df_pred := Some (gd + q / 2),
                  ratio := Some (np_true_divide (gd + q / 2) (fv - fl))\<rparr>))))))))"

text \<open>Lines 74 and 75: the quasi-Newton update and the eigendecomposition.\<close>

definition hessian_update ::
  "'w externals \<Rightarrow> ('w, 'z) MinMode_scheme \<Rightarrow> vec \<Rightarrow> vec \<Rightarrow> vec \<Rightarrow> vec
     \<Rightarrow> error + ('w, 'z) MinMode_scheme"
where
  "hessian_update ext s x xl g gl =
     (case np_sub x xl of
        Inl e \<Rightarrow> Inl e
      | Inr dx \<Rightarrow>
     (case np_sub g gl of
        Inl e \<Rightarrow> Inl e
      | Inr dg \<Rightarrow>
     (case update_H ext (Hess s) (Arr1 dx) (Arr1 dg) of
        Inl e \<Rightarrow> Inl e
      | Inr H' \<Rightarrow>
     (case eigh ext H' of
        Inl e \<Rightarrow> Inl e
      | Inr (ls, vs) \<Rightarrow> Inr (s\<lparr>Hess := Some H', lams := Some ls, vecs := Some vs\<rparr>)))))"

text \<open>\<open>MinMode.f_update\<close>. It returns the state with the pair \<open>(f, g)\<close>; on the cached
  path the pair is whatever \<open>flast\<close> and \<open>glast\<close> hold.\<close>

definition f_update ::
  "'w externals \<Rightarrow> ('w, 'z) MinMode_scheme \<Rightarrow> vec
     \<Rightarrow> error + (('w, 'z) MinMode_scheme \<times> real option \<times> vec option)"
where
  "f_update ext s x =
     (if is_cached s x then Inr (s, flast s, glast s)
      else
        let s1 = s\<lparr>calls := calls s + 1\<rparr> in
        case pot ext (world s1) x of
          Inl e \<Rightarrow> Inl e
        | Inr (w', fv, g) \<Rightarrow>
       (case (case flast s1 of
                None \<Rightarrow> Inr (s1\<lparr>world := w'\<rparr>)
              | Some fl \<Rightarrow> quadratic_model (s1\<lparr>world := w'\<rparr>) x fv fl) of
          Inl e \<Rightarrow> Inl e
        | Inr s2 \<Rightarrow>
       (case (case (xlast s2, glast s2) of
                (Some xl, Some gl) \<Rightarrow> hessian_update ext s2 x xl g gl
              | _ \<Rightarrow> Inr s2) of
          Inl e \<Rightarrow> Inl e
        | Inr s3 \<Rightarrow>
            Inr (s3\<lparr>flast := Some fv, xlast2 := xlast s3, xlast := Some x, glast := Some g\<rparr>,
                 Some fv, Some g))))"

text \<open>Elementwise subtraction of two-dimensional arrays with broadcasting (each
  dimension equal, or one of the two of extent one).\<close>

definition broadcast_dim :: "nat \<Rightarrow> nat \<Rightarrow> error + nat" where
  "broadcast_dim m n =
     (if m = n then Inr m else if m = 1 then Inr n else if n = 1 then Inr m
      else Inl ValueError)"

definition stretch :: "nat \<Rightarrow> 'a list \<Rightarrow> 'a list" where
  "stretch k xs = (if length xs = k then xs else replicate k (hd xs))"

definition np_sub2 :: "matrix \<Rightarrow> matrix \<Rightarrow> error + matrix" where
  "np_sub2 M N =
     (case broadcast_dim (length (rows M)) (length (rows N)) of
        Inl e \<Rightarrow> Inl e
      | Inr nr \<Rightarrow>
     (case broadcast_dim (ncols M) (ncols N) of
        Inl e \<Rightarrow> Inl e
      | Inr nc \<Rightarrow>
          Inr \<lparr>ncols = nc,
               rows = map2 (\<lambda>r1 r2. map2 (-) (stretch nc r1) (stretch nc r2))
                        (stretch nr (rows M)) (stretch nr (rows N))\<rparr>))"

text \<open>\<open>np.eye(self.d)\<close>, \<open>np.empty((self.d, 0))\<close>: a negative dimension is a ValueError.\<close>

definition eye_of_dim :: "int \<Rightarrow> error + matrix" where
  "eye_of_dim n = (if n < 0 then Inl ValueError else Inr (np_eye (nat n)))"

definition empty_basis :: "int \<Rightarrow> error + matrix" where
  "empty_basis n =
     (if n < 0 then Inl ValueError else Inr \<lparr>ncols = 0, rows = replicate (nat n) []\<rparr>)"

text \<open>The preconditioner when there is no Hessian yet:
  \<open>u = g0 / np.linalg.norm(g0); P = I - 2 * np.outer(u, u)\<close>.\<close>

definition householder :: "matrix \<Rightarrow> vec \<Rightarrow> error + matrix" where
  "householder I g =
     (case np_divide g [np_norm g] of
        Inl e \<Rightarrow> Inl e
      | Inr u \<Rightarrow> np_sub2 I (mscale 2 (np_outer u u)))"

text \<open>\<open>np.average(np.abs(lams))\<close>: \<open>nan\<close> for no eigenvalues.\<close>

definition average_abs :: "vec \<Rightarrow> error + real" where
  "average_abs ls =
     (if ls = [] then Inl NotANumber
      else Inr (sum_list (map abs ls) / real (length ls)))"

text \<open>
  \<open>MinMode.f_minmode(self, x0, dxL, maxres, threepoint)\<close>. The parameters \<open>x0\<close> and \<open>dxL\<close>
  are whatever the caller binds them to. Its first statement is \<open>d = len(x0)\<close>.
\<close>

definition f_minmode ::
  "'w externals \<Rightarrow> ('w, 'z) MinMode_scheme \<Rightarrow> pyval \<Rightarrow> pyval \<Rightarrow> real \<Rightarrow> bool
     \<Rightarrow> error + (('w, 'z) MinMode_scheme \<times> real option \<times> vec option)"
where
  "f_minmode ext s x0 dxL maxres tp =
     (case py_len x0 of
        Inl e \<Rightarrow> Inl e
      | Inr d \<Rightarrow>
     (case x0 of
        PyController \<Rightarrow> Inl TypeError
      | PyFloat h \<Rightarrow> Inl TypeError
      | PyArray xa \<Rightarrow>
     (case f_update ext s xa of
        Inl e \<Rightarrow> Inl e
      | Inr (s1, f0, g0o) \<Rightarrow>
     (case g0o of
        None \<Rightarrow> Inl AttributeError
      | Some g0 \<Rightarrow>
     (let Htrue = NumericalHessian_init (pot ext) xa g0 dxL tp in
      case eye_of_dim (dim s1) of
        Inl e \<Rightarrow> Inl e
      | Inr I \<Rightarrow>
     (case empty_basis (dim s1) of
        Inl e \<Rightarrow> Inl e
      | Inr T \<Rightarrow>
     (case (case Hess s1 of Some H \<Rightarrow> Inr H | None \<Rightarrow> householder I g0) of
        Inl e \<Rightarrow> Inl e
      | Inr P \<Rightarrow>
     (case minmode ext Htrue (world s1) maxres P T (shift s1) of
        Inl e \<Rightarrow> Inl e
      | Inr (H', w', ls, Vs', AVs') \<Rightarrow>
     (let s2 = s1\<lparr>world := w', calls := calls s1 + nh_calls H'\<rparr> in
      case (case Hess s2 of
              Some H \<Rightarrow> Inr H
            | None \<Rightarrow>
                (case average_abs ls of Inl e \<Rightarrow> Inl e | Inr a \<Rightarrow> Inr (mscale a I))) of
        Inl e \<Rightarrow> Inl e
      | Inr H0 \<Rightarrow>
     (case update_H ext (Some H0) (Arr2 Vs') (Arr2 AVs') of
        Inl e \<Rightarrow> Inl e
      | Inr H1 \<Rightarrow>
     (case eigh ext H1 of
        Inl e \<Rightarrow> Inl e
      | Inr (lams_all, vecs_all) \<Rightarrow>
          if lams_all = [] then Inl IndexError
          else
            (case eigh ext H1 of
               Inl e \<Rightarrow> Inl e
             | Inr (ls', vs') \<Rightarrow>
                 Inr (s2\<lparr>Hess := Some H1, shift := shift_factor s2 * last lams_all,
                         lams := Some ls', vecs := Some vs'\<rparr>, f0, Some g0)))))))))))))"

text \<open>
  \<open>MinMode.f_dimer(self, x0)\<close>, called with the anchor alone. The call
  \<open>self.f_minmode(self, x0, *args, **kwargs)\<close> is a call of the bound method with two
  positional arguments: the parameter \<open>x0\<close> of \<open>f_minmode\<close> is bound to the controller and
  \<open>dxL\<close> to the anchor; \<open>maxres\<close> and \<open>threepoint\<close> keep their defaults. (Further
  positional arguments would be bound to \<open>maxres\<close> and \<open>threepoint\<close>, and \<open>x0\<close> would still
  be the controller.) After the call:
  \<open>gpar = self.vecs[:, 0] * (self.vecs[:, 0] @ g)\<close> and the test of \<open>self.lams[0]\<close>.
\<close>

definition f_dimer ::
  "'w externals \<Rightarrow> ('w, 'z) MinMode_scheme \<Rightarrow> vec
     \<Rightarrow> error + (('w, 'z) MinMode_scheme \<times> real option \<times> vec)"
where
  "f_dimer ext s x0 =
     (case f_minmode ext s PyController (PyArray x0) (5 / 1000) False of
        Inl e \<Rightarrow> Inl e
      | Inr (s', fv, go) \<Rightarrow>
     (case vecs s' of
        None \<Rightarrow> Inl TypeError
      | Some V \<Rightarrow>
          if ncols V = 0 then Inl IndexError
          else
     (case go of
        None \<Rightarrow> Inl ValueError
      | Some g \<Rightarrow>
     (case np_dot_vv (mcol V 0) g of
        Inl e \<Rightarrow> Inl e
      | Inr c \<Rightarrow>
     (let gpar = map (\<lambda>x. x * c) (mcol V 0) in
      case lams s' of
        None \<Rightarrow> Inl TypeError
      | Some ls \<Rightarrow>
          if ls = [] then Inl IndexError
          else if hd ls > 0 then Inr (s', fv, map uminus gpar)
          else
            (case np_sub g (map (\<lambda>x. 2 * x) gpar) of
               Inl e \<Rightarrow> Inl e
             | Inr r \<Rightarrow> Inr (s', fv, r)))))))"

section \<open>Concrete collaborators and controller states\<close>

text \<open>An update that leaves the approximation as it is, the eigendecomposition of a
  diagonal matrix with an ascending diagonal, an eigensolver that fails (\<open>f_update\<close> and
  \<open>eval_eg\<close> do not call it), and the three with the counting quadratic potential.\<close>

definition keep_H :: "matrix option \<Rightarrow> ndarray \<Rightarrow> ndarray \<Rightarrow> error + matrix" where
  "keep_H H a b = (case H of None \<Rightarrow> Inl ExternalError | Some M \<Rightarrow> Inr M)"

definition eigh_diag :: "matrix \<Rightarrow> error + (vec \<times> matrix)" where
  "eigh_diag M = Inr (map (\<lambda>i. rows M ! i ! i) [0..<ncols M], np_eye (ncols M))"

definition no_solver ::
  "'w numhess \<Rightarrow> 'w \<Rightarrow> real \<Rightarrow> matrix \<Rightarrow> matrix \<Rightarrow> real
     \<Rightarrow> error + ('w numhess \<times> 'w \<times> vec \<times> matrix \<times> matrix)"
where
  "no_solver H w m P T sh = Inl ExternalError"

definition ext_quad :: "(nat \<times> unit) externals" where
  "ext_quad = \<lparr>pot = counted quad_pot, update_H = keep_H, eigh = eigh_diag,
               minmode = no_solver\<rparr>"

text \<open>A one-dimensional controller after one evaluation at the origin, with the
  approximate Hessian \<open>[[2]]\<close>, and the same controller after \<open>f_update\<close> at \<open>[2]\<close>.\<close>

definition at_origin :: "(nat \<times> unit) MinMode" where
  "at_origin =
     \<lparr>world = (1, ()), dim = 1, Hess = Some \<lparr>ncols = 1, rows = [[2]]\<rparr>, flast = Some 0,
      xlast2 = None, xlast = Some [0], glast = Some [0], shift = 1000, shift_factor = 4,
      calls = 1, df = None, df_pred = None, ratio = None, v0 = None, lams = Some [2],
      vecs = Some \<lparr>ncols = 1, rows = [[1]]\<rparr>\<rparr>"

definition at_two :: "(nat \<times> unit) MinMode" where
  "at_two = at_origin
     \<lparr>world := (2, ()), flast := Some 2, xlast2 := Some [0], xlast := Some [2],
      glast := Some [2], calls := 2, df := Some 2, df_pred := Some 4,
      ratio := Some (Finite 2)\<rparr>"

section \<open>sella_old.py: the Cartesian controller MinModeAtoms\<close>

text \<open>
  \<open>self.constraints\<close>: a dict with the keys \<open>fix\<close>, \<open>bonds\<close>, \<open>angles\<close> and \<open>dihedrals\<close>, each
  present or not (\<open>fixed\<close> is the key \<open>fix\<close>). The fixed atoms are a Python list of
  indices, as the constructor stores them from explicit constraints; the other three are
  dicts from index tuples to targets, kept in insertion order.
\<close>

record constraint_set =
  fixed :: "int list option"
  bonds :: "(int list \<times> real) list option"
  angles :: "(int list \<times> real) list option"
  dihedrals :: "(int list \<times> real) list option"

text \<open>
  The attributes \<open>MinModeAtoms\<close> adds to the generic controller. \<open>positions\<close> is
  \<open>self.atoms.positions\<close>, one row of three coordinates per atom; the Atoms object carries
  no ASE constraints of its own. \<open>trajectory\<close> is the list of the snapshots written.
  The attributes \<open>hlast\<close>, \<open>project_translations\<close> and \<open>project_rotations\<close>, which only
  the overriding \<open>f_minmode\<close> reads, are left out.
\<close>

record 'w MinModeAtoms = "'w MinMode" +
  positions :: "vec list"
  x0 :: vec
  constraints :: "constraint_set option"
  nconstr :: nat
  trajectory :: "vec list list option"

text \<open>\<open>x.reshape((-1, 3))\<close> of a one-dimensional array, and \<open>g.ravel()\<close>.\<close>

definition reshape3 :: "vec \<Rightarrow> error + vec list" where
  "reshape3 x =
     (if length x mod 3 \<noteq> 0 then Inl ValueError
      else Inr (map (\<lambda>i. take 3 (drop (3 * i) x)) [0..<length x div 3]))"

definition ravel :: "vec list \<Rightarrow> vec" where
  "ravel g = concat g"

text \<open>The first loop of \<open>eval_eg\<close>, over the atoms \<open>i\<close>; \<open>n\<close> counts the rows of \<open>xin\<close>
  used so far. The row \<open>pos[i]\<close> is written once, so the loop builds \<open>pos\<close> row by row.\<close>

fun scatter :: "int list \<Rightarrow> vec list \<Rightarrow> vec list \<Rightarrow> nat list \<Rightarrow> nat \<Rightarrow> error + vec list" where
  "scatter fx x0r xin [] n = Inr []"
| "scatter fx x0r xin (i # rest) n =
     (if int i \<in> set fx then
        (if i < length x0r then
           (case scatter fx x0r xin rest n of
              Inl e \<Rightarrow> Inl e
            | Inr ps \<Rightarrow> Inr (x0r ! i # ps))
         else Inl IndexError)
      else
        (if n < length xin then
           (case scatter fx x0r xin rest (Suc n) of
              Inl e \<Rightarrow> Inl e
            | Inr ps \<Rightarrow> Inr (xin ! n # ps))
         else Inl IndexError))"

text \<open>A row assigned into a row of three entries: numpy broadcasts a single entry.\<close>

definition row3 :: "vec \<Rightarrow> error + vec" where
  "row3 r =
     (if length r = 3 then Inr r
      else if length r = 1 then Inr (replicate 3 (hd r))
      else Inl ValueError)"

text \<open>The second loop: \<open>g[n] = f[i]\<close> for the atoms that are not fixed.\<close>

fun gather :: "int list \<Rightarrow> vec list \<Rightarrow> nat list \<Rightarrow> nat \<Rightarrow> vec list \<Rightarrow> error + vec list" where
  "gather fx f [] n g = Inr g"
| "gather fx f (i # rest) n g =
     (if int i \<notin> set fx then
        (if i < length f \<and> n < length g then
           (case row3 (f ! i) of
              Inl e \<Rightarrow> Inl e
            | Inr r \<Rightarrow> gather fx f rest (Suc n) (g[n := r]))
         else Inl IndexError)
      else gather fx f rest n g)"

text \<open>
  \<open>MinModeAtoms.eval_eg\<close>. \<open>calc\<close> is the external calculator: given its state and the
  positions just set, it returns its state, the potential energy and the forces.
  \<open>set_positions\<close> raises ValueError unless it is given one row per atom.
\<close>

definition eval_eg ::
  "('w \<Rightarrow> vec list \<Rightarrow> error + ('w \<times> real \<times> vec list)) \<Rightarrow> ('w, 'z) MinModeAtoms_scheme \<Rightarrow> vec
     \<Rightarrow> error + (('w, 'z) MinModeAtoms_scheme \<times> real \<times> vec)"
where
  "eval_eg calc s x =
     (case reshape3 x of
        Inl e \<Rightarrow> Inl e
      | Inr xin \<Rightarrow>
     (case constraints s of
        None \<Rightarrow> Inl AttributeError
      | Some c \<Rightarrow>
     (let fx = (case fixed c of None \<Rightarrow> [] | Some l \<Rightarrow> l);
          natoms = length (positions s)
      in case (if fx \<noteq> [] then
                 (case reshape3 (x0 s) of
                    Inl e \<Rightarrow> Inl e
                  | Inr x0r \<Rightarrow> scatter fx x0r xin [0..<natoms] 0)
               else Inr xin) of
           Inl e \<Rightarrow> Inl e
         | Inr pos \<Rightarrow>
             if length pos \<noteq> natoms then Inl ValueError
             else
        (case calc (world s) pos of
           Inl e \<Rightarrow> Inl e
         | Inr (w', en, forces) \<Rightarrow>
        (let f = map (map uminus) forces in
         case (if fx \<noteq> [] then
                 gather fx f [0..<natoms] 0 (replicate (length xin) [0, 0, 0])
               else Inr f) of
           Inl e \<Rightarrow> Inl e
         | Inr g \<Rightarrow>
             Inr (s\<lparr>world := w', positions := pos,
                    trajectory := map_option (\<lambda>t. t @ [pos]) (trajectory s)\<rparr>,
                  en, ravel g))))))"

text \<open>A sequence of evaluations, each on the controller the previous one left.\<close>

fun eval_seq ::
  "('w \<Rightarrow> vec list \<Rightarrow> error + ('w \<times> real \<times> vec list)) \<Rightarrow> ('w, 'z) MinModeAtoms_scheme
     \<Rightarrow> vec list \<Rightarrow> error + ('w, 'z) MinModeAtoms_scheme"
where
  "eval_seq calc s [] = Inr s"
| "eval_seq calc s (x # xs) =
     (case eval_eg calc s x of
        Inl e \<Rightarrow> Inl e
      | Inr (s', en, g) \<Rightarrow> eval_seq calc s' xs)"

text \<open>\<open>_sort_constr_indices\<close>\<close>

definition sort_constr_indices :: "int list \<Rightarrow> error + int list" where
  "sort_constr_indices ix =
     (if ix = [] then Inl IndexError
      else if hd ix < last ix then Inr ix
      else Inr (rev ix))"

text \<open>\<open>d[k] = v\<close> on a dict in insertion order.\<close>

fun dict_set :: "'k \<Rightarrow> 'v \<Rightarrow> ('k \<times> 'v) list \<Rightarrow> ('k \<times> 'v) list" where
  "dict_set k v [] = [(k, v)]"
| "dict_set k v (p # ps) = (if fst p = k then (k, v) # ps else p # dict_set k v ps)"

text \<open>The loops that fill \<open>bonds\<close>, \<open>angles\<close> and \<open>dihedrals\<close> from entries
  \<open>(target, indices)\<close>.\<close>

fun fill_targets ::
  "(real \<times> int list) list \<Rightarrow> (int list \<times> real) list \<Rightarrow> error + (int list \<times> real) list"
where
  "fill_targets [] acc = Inr acc"
| "fill_targets (e # es) acc =
     (case sort_constr_indices (snd e) of
        Inl er \<Rightarrow> Inl er
      | Inr key \<Rightarrow> fill_targets es (dict_set key (fst e) acc))"

text \<open>
  The constructor's argument \<open>constraints\<close>, when it is a dict: the list under \<open>fix\<close> and
  the lists under \<open>bonds\<close>, \<open>angles\<close> and \<open>dihedrals\<close>, each present or not. Every entry of
  the latter three carries its target (the entries without a target, whose target the
  constructor measures on the Atoms object, are not modelled).
\<close>

record user_constraints =
  u_fix :: "int list option"
  u_bonds :: "(real \<times> int list) list option"
  u_angles :: "(real \<times> int list) list option"
  u_dihedrals :: "(real \<times> int list) list option"

definition nonempty :: "'a list \<Rightarrow> 'a list option" where
  "nonempty xs = (if xs = [] then None else Some xs)"

text \<open>
  \<open>MinModeAtoms.__init__(atoms, calculator, minmode, H0, v0, trshift, trshift_factor,
  constraints=...)\<close> with no trajectory: \<open>MinMode.__init__\<close> (which decomposes \<open>H0\<close> when
  there is one), the copy of the atoms and of their flattened positions, and the
  constraint set. \<open>w\<close> is the calculator's state.
\<close>

definition MinModeAtoms_init ::
  "'w externals \<Rightarrow> 'w \<Rightarrow> vec list \<Rightarrow> matrix option \<Rightarrow> vec option \<Rightarrow> real \<Rightarrow> real
     \<Rightarrow> user_constraints option \<Rightarrow> error + 'w MinModeAtoms"
where
  "MinModeAtoms_init ext w atoms H0 v trshift trshift_factor ucs =
     (case (case H0 of
              None \<Rightarrow> Inr (None, None)
            | Some H \<Rightarrow>
                (case eigh ext H of
                   Inl e \<Rightarrow> Inl e
                 | Inr (ls, vs) \<Rightarrow> Inr (Some ls, Some vs))) of
        Inl e \<Rightarrow> Inl e
      | Inr (ls, vs) \<Rightarrow>
     (let s = \<lparr>world = w, dim = 3 * int (length atoms), Hess = H0, flast = None,
               xlast2 = None, xlast = None, glast = None, shift = trshift,
               shift_factor = trshift_factor, calls = 0, df = None, df_pred = None,
               ratio = None, v0 = v, lams = ls, vecs = vs,
               positions = atoms, x0 = ravel atoms, constraints = None, nconstr = 0,
               trajectory = None\<rparr>
      in case ucs of
           None \<Rightarrow>
             Inr (s\<lparr>constraints :=
                      Some \<lparr>fixed = None, bonds = None, angles = None, dihedrals = None\<rparr>\<rparr>)
         | Some uc \<Rightarrow>
        (let fx = (case u_fix uc of None \<Rightarrow> [] | Some l \<Rightarrow> l) in
         case fill_targets (case u_bonds uc of None \<Rightarrow> [] | Some l \<Rightarrow> l) [] of
           Inl e \<Rightarrow> Inl e
         | Inr bs \<Rightarrow>
        (case fill_targets (case u_angles uc of None \<Rightarrow> [] | Some l \<Rightarrow> l) [] of
           Inl e \<Rightarrow> Inl e
         | Inr as \<Rightarrow>
        (case fill_targets (case u_dihedrals uc of None \<Rightarrow> [] | Some l \<Rightarrow> l) [] of
           Inl e \<Rightarrow> Inl e
         | Inr ds \<Rightarrow>
             Inr (s\<lparr>dim := dim s - 3 * int (length fx),
                    nconstr := length bs + length as + length ds,
                    constraints :=
                      Some \<lparr>fixed = nonempty fx, bonds = nonempty bs, angles = nonempty as,
                            dihedrals = nonempty ds\<rparr>\<rparr>))))))"

text \<open>The atoms that are not fixed, in order (\<open>unfix\<close> in \<open>res_constr\<close>), and the number
  of them before atom \<open>i\<close>.\<close>

definition unfixed :: "int list \<Rightarrow> nat \<Rightarrow> nat list" where
  "unfixed fx n = filter (\<lambda>i. int i \<notin> set fx) [0..<n]"

definition unfixed_rank :: "int list \<Rightarrow> nat \<Rightarrow> nat" where
  "unfixed_rank fx i = length (unfixed fx i)"

section \<open>Invariant and concrete inputs of the Cartesian controller\<close>

text \<open>
  What the constructor establishes for atoms at \<open>P\<close> with the non-empty list \<open>fx\<close> under
  \<open>fix\<close>, and every evaluation keeps: \<open>x0\<close> is the flattened \<open>P\<close>, there is a row of
  positions per atom, and the fixed atoms are where they were in \<open>P\<close>.
\<close>

definition atoms_inv :: "vec list \<Rightarrow> int list \<Rightarrow> ('w, 'z) MinModeAtoms_scheme \<Rightarrow> bool" where
  "atoms_inv P fx s =
     (x0 s = ravel P \<and> list_all (\<lambda>r. length r = 3) P \<and> length (positions s) = length P
      \<and> (case constraints s of None \<Rightarrow> False | Some c \<Rightarrow> fixed c = Some fx) \<and> fx \<noteq> []
      \<and> (\<forall>i<length P. int i \<in> set fx \<longrightarrow> positions s ! i = P ! i))"

text \<open>A calculator without state: each atom is pulled to the origin by a unit spring
  (energy \<open>|x|\<^sup>2 / 2\<close>, force \<open>-x\<close>).\<close>

definition spring_calc :: "unit \<Rightarrow> vec list \<Rightarrow> error + (unit \<times> real \<times> vec list)" where
  "spring_calc w pos = Inr (w, inner (ravel pos) (ravel pos) / 2, map (map uminus) pos)"


text \<open>Two atoms with the first one fixed, and the controller the constructor builds for
  them with no Hessian.\<close>

definition two_atoms :: "vec list" where
  "two_atoms = [[0, 0, 0], [1, 0, 0]]"

definition fix_first :: user_constraints where
  "fix_first = \<lparr>u_fix = Some [0], u_bonds = None, u_angles = None, u_dihedrals = None\<rparr>"

definition ext_none :: "unit externals" where
  "ext_none = \<lparr>pot = quad_pot, update_H = keep_H, eigh = eigh_diag, minmode = no_solver\<rparr>"

definition atoms_start :: "unit MinModeAtoms" where
  "atoms_start =
     \<lparr>world = (), dim = 3, Hess = None, flast = None,
      xlast2 = None, xlast = None, glast = None, shift = 1000,
      shift_factor = 4, calls = 0, df = None, df_pred = None,
      ratio = None, v0 = None, lams = None, vecs = None,
      positions = two_atoms, x0 = [0, 0, 0, 1, 0, 0],
      constraints = Some \<lparr>fixed = Some [0], bonds = None, angles = None, dihedrals = None\<rparr>,
      nconstr = 0, trajectory = None\<rparr>"

subsection \<open>res_constr\<close>

text \<open>\<open>a % b\<close> on floats, for a positive \<open>b\<close>: the remainder of the floored quotient.\<close>

definition np_mod :: "real \<Rightarrow> real \<Rightarrow> real" where
  "np_mod a b = a - b * of_int \<lfloor>a / b\<rfloor>"

text \<open>\<open>(r[n] - target + np.pi) % (2 * np.pi) - np.pi\<close>\<close>

definition wrap_dihedral :: "real \<Rightarrow> real \<Rightarrow> real" where
  "wrap_dihedral m t = np_mod (m - t + pi) (2 * pi) - pi"

text \<open>The loop of \<open>res_constr\<close> that fills \<open>pos\<close>: a fixed atom's row is filled with the
  one entry \<open>self.x0[i]\<close> of the flat array.\<close>

fun scatter_flat :: "int list \<Rightarrow> vec \<Rightarrow> vec list \<Rightarrow> nat list \<Rightarrow> nat \<Rightarrow> error + vec list" where
  "scatter_flat fx xf xin [] n = Inr []"
| "scatter_flat fx xf xin (i # rest) n =
     (if int i \<in> set fx then
        (if i < length xf then
           (case scatter_flat fx xf xin rest n of
              Inl e \<Rightarrow> Inl e
            | Inr ps \<Rightarrow> Inr (replicate 3 (xf ! i) # ps))
         else Inl IndexError)
      else
        (if n < length xin then
           (case scatter_flat fx xf xin rest (Suc n) of
              Inl e \<Rightarrow> Inl e
            | Inr ps \<Rightarrow> Inr (xin ! n # ps))
         else Inl IndexError))"

text \<open>The loops over the bonds and over the angles: \<open>r[n] -= target; n += 1\<close>.\<close>

fun sub_targets :: "real list \<Rightarrow> nat \<Rightarrow> vec \<Rightarrow> error + (nat \<times> vec)" where
  "sub_targets [] n r = Inr (n, r)"
| "sub_targets (t # ts) n r =
     (if n < length r then sub_targets ts (Suc n) (r[n := r ! n - t]) else Inl IndexError)"

text \<open>The loop over the dihedrals; it does not advance \<open>n\<close>.\<close>

fun wrap_targets :: "real list \<Rightarrow> nat \<Rightarrow> vec \<Rightarrow> error + vec" where
  "wrap_targets [] n r = Inr r"
| "wrap_targets (t # ts) n r =
     (if n < length r then wrap_targets ts n (r[n := wrap_dihedral (r ! n) t])
      else Inl IndexError)"

definition chunks :: "nat \<Rightarrow> 'a list \<Rightarrow> 'a list list" where
  "chunks k xs = map (\<lambda>i. take k (drop (i * k) xs)) [0..<length xs div k]"

text \<open>\<open>drdx.reshape(-1, len(self.atoms), 3)[:, unfix, :].reshape(-1, self.d)\<close>\<close>

definition jacobian_unfixed :: "matrix \<Rightarrow> nat \<Rightarrow> nat list \<Rightarrow> int \<Rightarrow> error + matrix" where
  "jacobian_unfixed J n unfix d =
     (let flat = concat (rows J) in
      if n = 0 \<or> length flat mod (3 * n) \<noteq> 0 then Inl ValueError
      else
        let sel = concat (map (\<lambda>slab. concat (map (\<lambda>i. chunks 3 slab ! i) unfix))
                            (chunks (3 * n) flat))
        in if d \<le> 0 \<or> length sel mod nat d \<noteq> 0 then Inl ValueError
           else Inr \<lparr>ncols = nat d, rows = chunks (nat d) sel\<rparr>)"

text \<open>
  \<open>MinModeAtoms.res_constr\<close>. \<open>c2i\<close> is the external routine \<open>cart_to_internal\<close>: given
  the positions and the index tuples of the bonds, angles and dihedrals it returns the
  measured values, in that order, and their Jacobian. A dict has one entry per key, so
  the target looked up for a key is the target of its entry.
\<close>

definition res_constr ::
  "(vec list \<Rightarrow> int list list \<Rightarrow> int list list \<Rightarrow> int list list \<Rightarrow> error + (vec \<times> matrix))
     \<Rightarrow> ('w, 'z) MinModeAtoms_scheme \<Rightarrow> vec \<Rightarrow> error + (vec \<times> matrix)"
where
  "res_constr c2i s x =
     (if dim s < 0 then Inl ValueError
      else
     (case reshape3 x of
        Inl e \<Rightarrow> Inl e
      | Inr xin \<Rightarrow>
     (case constraints s of
        None \<Rightarrow> Inl AttributeError
      | Some c \<Rightarrow>
     (let fx = (case fixed c of None \<Rightarrow> [] | Some l \<Rightarrow> l);
          bl = (case bonds c of None \<Rightarrow> [] | Some l \<Rightarrow> l);
          al = (case angles c of None \<Rightarrow> [] | Some l \<Rightarrow> l);
          dl = (case dihedrals c of None \<Rightarrow> [] | Some l \<Rightarrow> l);
          natoms = length (positions s)
      in case scatter_flat fx (x0 s) xin [0..<natoms] 0 of
           Inl e \<Rightarrow> Inl e
         | Inr pos \<Rightarrow>
        (case c2i pos (map fst bl) (map fst al) (map fst dl) of
           Inl e \<Rightarrow> Inl e
         | Inr (r, drdx) \<Rightarrow>
        (case sub_targets (map snd bl) 0 r of
           Inl e \<Rightarrow> Inl e
         | Inr (n1, r1) \<Rightarrow>
        (case sub_targets (map snd al) n1 r1 of
           Inl e \<Rightarrow> Inl e
         | Inr (n2, r2) \<Rightarrow>
        (case wrap_targets (map snd dl) n2 r2 of
           Inl e \<Rightarrow> Inl e
         | Inr r3 \<Rightarrow>
        (case jacobian_unfixed drdx natoms (unfixed fx natoms) (dim s) of
           Inl e \<Rightarrow> Inl e
         | Inr J \<Rightarrow> Inr (r3, J))))))))))"

text \<open>A residual routine that measures the one dihedral as \<open>m\<close> whatever the positions,
  with a zero Jacobian, and a controller for four atoms with the one dihedral
  constraint of target \<open>t\<close>.\<close>

definition c2i_const ::
  "real \<Rightarrow> vec list \<Rightarrow> int list list \<Rightarrow> int list list \<Rightarrow> int list list \<Rightarrow> error + (vec \<times> matrix)"
where
  "c2i_const m pos b a d =
     Inr ([m], \<lparr>ncols = 12, rows = [[0, 0, 0, 0, 0, 0, 0, 0, 0, 0, 0, 0]]\<rparr>)"

definition four_atoms :: "real \<Rightarrow> unit MinModeAtoms" where
  "four_atoms t =
     \<lparr>world = (), dim = 12, Hess = None, flast = None,
      xlast2 = None, xlast = None, glast = None, shift = 1000,
      shift_factor = 4, calls = 0, df = None, df_pred = None,
      ratio = None, v0 = None, lams = None, vecs = None,
      positions = [[0, 0, 0], [1, 0, 0], [1, 1, 0], [1, 1, 1]],
      x0 = [0, 0, 0, 1, 0, 0, 1, 1, 0, 1, 1, 1],
      constraints = Some \<lparr>fixed = None, bonds = None, angles = None,
                          dihedrals = Some [([0, 1, 2, 3], t)]\<rparr>,
      nconstr = 1, trajectory = None\<rparr>"

section \<open>Properties of linalg.py\<close>

text \<open>
  C7. \<open>MatrixWrapper._matmat\<close> and \<open>MatrixWrapper._rmatmat\<close> raise ValueError whenever the
  other operand is a \<open>MatrixSum\<close>, whatever the wrapped matrix and the sum are; no
  product is built.
\<close>

theorem matmat_of_sum_raises:
  "MatrixWrapper_matmat A (SumArg S) = Inl ValueError
   \<and> MatrixWrapper_rmatmat A (SumArg S) = Inl ValueError"
  by (simp add: MatrixWrapper_matmat_def MatrixWrapper_rmatmat_def)

subsection \<open>MatrixWrapper\<close>

lemma inner_nth: "length a = length b \<Longrightarrow> inner a b = (\<Sum>j<length a. a ! j * b ! j)"
  unfolding inner_def
  by (induction a b rule: list_induct2)
     (simp_all add: sum.lessThan_Suc_shift del: sum.lessThan_Suc)

lemma wrapper_matvec_entries:
  assumes "wf_matrix A" "ncols A = length v"
  shows "\<exists>r. MatrixWrapper_matvec A v = Inr r \<and> length r = length (rows A)
           \<and> (\<forall>i<length (rows A). r ! i = (\<Sum>j<ncols A. rows A ! i ! j * v ! j))"
  using assms
  by (auto simp: MatrixWrapper_matvec_def np_dot_mv_def wf_matrix_def list_all_length inner_nth)

lemma wrapper_rmatvec_entries:
  assumes "wf_matrix A" "length v = length (rows A)"
  shows "\<exists>r. MatrixWrapper_rmatvec A v = Inr r \<and> length r = ncols A
           \<and> (\<forall>j<ncols A. r ! j = (\<Sum>i<length (rows A). v ! i * rows A ! i ! j))"
  using assms
  by (auto simp: MatrixWrapper_rmatvec_def np_dot_vm_def wf_matrix_def list_all_length
      inner_nth mcol_def)

lemma wrapper_adjoint_is_transpose:
  "MatrixWrapper_adjoint A = Inr (Wrapped (mtranspose A))"
  by (simp add: MatrixWrapper_adjoint_def MatrixWrapper_init_def)

lemma mtranspose_entry:
  "i < length (rows A) \<Longrightarrow> j < ncols A \<Longrightarrow> rows (mtranspose A) ! j ! i = rows A ! i ! j"
  by (simp add: mtranspose_def mcol_def)

text \<open>
  C9. \<open>MatrixWrapper._transpose\<close> gives the constructor the bound method
  \<open>self.A.transpose\<close> instead of the transposed array; the constructor reads its
  \<open>shape\<close> and raises AttributeError, for every wrapped matrix. (The products
  \<open>matvec\<close>, \<open>rmatvec\<close> and the adjoint are as the claim says: the three lemmas above.)
\<close>

theorem wrapper_transpose_raises: "MatrixWrapper_transpose A = Inl AttributeError"
  by (simp add: MatrixWrapper_transpose_def MatrixWrapper_init_def)

subsection \<open>NumericalHessian\<close>

text \<open>
  What \<open>NumericalHessian._matvec\<close> does to the counters. A call that returns has added
  exactly one to the operator's \<open>calls\<close>, in two-point and in three-point mode alike, and
  has changed no other attribute of the operator; the potential has been evaluated once
  in two-point mode and twice in three-point mode.
\<close>

theorem matvec_counts_calls:
  assumes "nh_func op = counted fn"
      and "NumericalHessian_matvec op (n, w) v = Inr (op', (n', w'), r)"
  shows "op' = op\<lparr>nh_calls := nh_calls op + 1\<rparr>
         \<and> n' = n + (if nh_threepoint op then 2 else 1)"
  using assms
  by (auto simp: NumericalHessian_matvec_def Let_def counted_def
      split: sum.splits if_splits prod.splits)

text \<open>
  C3. In three-point mode the counter misses the second evaluation: on the quadratic
  potential, anchored at the origin with step 1, one product with the unit vector
  evaluates the potential twice and leaves \<open>calls\<close> at 1, where the claim has it grow by
  two. The triple is (\<open>calls\<close>, evaluations, result). The controller adds this counter
  to its own \<open>calls\<close>, which \<open>f_update\<close> increments once per evaluation of the potential.
\<close>

theorem matvec_threepoint_counts_one:
  "map_sum id (\<lambda>(op', nw, r). (nh_calls op', fst nw, r))
     (NumericalHessian_matvec
        (NumericalHessian_init (counted quad_pot) [0] [0] (PyFloat 1) True) (0, ()) [1])
   = Inr (1, 2, [1])"
  by (simp add: NumericalHessian_matvec_def NumericalHessian_init_def counted_def quad_pot_def
      probe_step_def as_operand_def np_mul_def np_binop_def np_divide_def np_norm_def
      np_add_def np_sub_def central_quotient_def inner_def)

theorem matvec_counts_calls_witness:
  "NumericalHessian_matvec
     (NumericalHessian_init (counted quad_pot) [0] [0] (PyFloat 1) False) (0, ()) [2]
   = Inr ((NumericalHessian_init (counted quad_pot) [0] [0] (PyFloat 1) False)
            \<lparr>nh_calls := 1\<rparr>, (1, ()), [2])
   \<and> nh_calls ((NumericalHessian_init (counted quad_pot) [0] [0] (PyFloat 1) False)
                  \<lparr>nh_calls := 1\<rparr>)
       = nh_calls (NumericalHessian_init (counted quad_pot) [0] [0] (PyFloat 1) False) + 1"
proof -
  let ?op = "NumericalHessian_init (counted quad_pot) [0] [0] (PyFloat 1) False"
  have f: "nh_func ?op = counted quad_pot"
    by (simp add: NumericalHessian_init_def)
  have run: "NumericalHessian_matvec ?op (0, ()) [2] = Inr (?op\<lparr>nh_calls := 1\<rparr>, (1, ()), [2])"
    by (simp add: NumericalHessian_matvec_def NumericalHessian_init_def counted_def quad_pot_def
        probe_step_def as_operand_def np_mul_def np_binop_def np_divide_def np_norm_def
        np_add_def np_sub_def forward_quotient_def inner_def)
  from matvec_counts_calls[OF f run] run show ?thesis
    by (simp add: NumericalHessian_init_def)
qed

subsection \<open>ProjectedMatrix\<close>

lemma reshape_rows_column:
  assumes "reshape_rows d v = Inr C" "length v = d"
  shows "C = \<lparr>ncols = 1, rows = map (\<lambda>x. [x]) v\<rparr>"
proof -
  from assms have d: "0 < d" by (auto simp: reshape_rows_def split: if_splits)
  have "map (\<lambda>i. take 1 (drop i v)) [0..<length v] = map (\<lambda>i. [v ! i]) [0..<length v]"
    by (rule map_cong) (auto simp: take_Suc_conv_app_nth hd_drop_conv_nth take_Suc)
  also have "\<dots> = map (\<lambda>x. [x]) v"
    by (rule nth_equalityI) auto
  finally show ?thesis
    using assms d by (auto simp: reshape_rows_def split: if_splits)
qed

lemma hstack_column:
  assumes "np_hstack M \<lparr>ncols = 1, rows = map (\<lambda>x. [x]) v\<rparr> = Inr H" "wf_matrix M"
  shows "ncols H = ncols M + 1" "wf_matrix H" "length (rows H) = length (rows M)"
        "mcol H (ncols M) = v" "j < ncols M \<Longrightarrow> mcol H j = mcol M j"
proof -
  from assms have len: "length (rows M) = length v"
    and H: "H = \<lparr>ncols = ncols M + 1, rows = map2 (@) (rows M) (map (\<lambda>x. [x]) v)\<rparr>"
    by (auto simp: np_hstack_def split: if_splits)
  from assms(2) have wf: "\<And>i. i < length (rows M) \<Longrightarrow> length (rows M ! i) = ncols M"
    by (simp add: wf_matrix_def list_all_length)
  show "ncols H = ncols M + 1" by (simp add: H)
  show "length (rows H) = length (rows M)" by (simp add: H len)
  show "wf_matrix H"
    using wf len by (auto simp: H wf_matrix_def list_all_length)
  show "mcol H (ncols M) = v"
    using wf len by (auto simp: H mcol_def nth_append intro!: nth_equalityI)
  show "mcol H j = mcol M j" if "j < ncols M"
    using wf len that by (auto simp: H mcol_def nth_append intro!: nth_equalityI)
qed

lemma projected_dot_step:
  assumes inv: "pm_inv P" and run: "ProjectedMatrix_dot A_dot P v_m = Inr (P', r)"
  shows "\<exists>v a' w. np_dot_mv (Tm P) v_m = Inr v \<and> A_dot (pm_A P) v = Inr (a', w)
           \<and> np_dot_mv (mtranspose (Tm P)) w = Inr r
           \<and> Tm P' = Tm P \<and> dtrue P' = dtrue P \<and> dproj P' = dproj P
           \<and> ncols (Vs P') = ncols (Vs P) + 1 \<and> ncols (AVs P') = ncols (AVs P) + 1
           \<and> mcol (Vs P') (ncols (Vs P)) = v \<and> mcol (AVs P') (ncols (AVs P)) = w
           \<and> (\<forall>j<ncols (Vs P). mcol (Vs P') j = mcol (Vs P) j)
           \<and> (\<forall>j<ncols (AVs P). mcol (AVs P') j = mcol (AVs P) j)
           \<and> pm_inv P'"
proof -
  from run obtain v vcol Vs' a' w wcol AVs' where
    v: "np_dot_mv (Tm P) v_m = Inr v" and vcol: "reshape_rows (dtrue P) v = Inr vcol"
    and Vs': "np_hstack (Vs P) vcol = Inr Vs'" and w: "A_dot (pm_A P) v = Inr (a', w)"
    and wcol: "reshape_rows (dtrue P) w = Inr wcol" and AVs': "np_hstack (AVs P) wcol = Inr AVs'"
    and r: "np_dot_mv (mtranspose (Tm P)) w = Inr r"
    and P': "P' = P\<lparr>pm_A := a', Vs := Vs', AVs := AVs'\<rparr>"
    by (auto simp: ProjectedMatrix_dot_def split: sum.splits prod.splits)
  from inv have d: "dtrue P = length (rows (Tm P))" and wfV: "wf_matrix (Vs P)"
    and wfA: "wf_matrix (AVs P)" and lV: "length (rows (Vs P)) = dtrue P"
    and lA: "length (rows (AVs P)) = dtrue P"
    by (simp_all add: pm_inv_def)
  from v have lv: "length v = dtrue P"
    by (auto simp: np_dot_mv_def d split: if_splits)
  from r have lw: "length w = dtrue P"
    by (auto simp: np_dot_mv_def mtranspose_def d split: if_splits)
  note cv = reshape_rows_column[OF vcol lv] and cw = reshape_rows_column[OF wcol lw]
  note hv = hstack_column[OF Vs'[unfolded cv] wfV]
    and hw = hstack_column[OF AVs'[unfolded cw] wfA]
  have "pm_inv P'"
    using hv(2,3) hw(2,3) d lV lA by (simp add: pm_inv_def P')
  then show ?thesis
    using v w r hv hw by (auto simp: P')
qed

lemma projected_dots_history:
  assumes "pm_inv P" "ProjectedMatrix_dots A_dot P vs = Inr P'"
  shows "pm_inv P' \<and> ncols (Vs P') = ncols (Vs P) + length vs
         \<and> ncols (AVs P') = ncols (AVs P) + length vs
         \<and> (\<forall>j<ncols (Vs P). mcol (Vs P') j = mcol (Vs P) j)
         \<and> (\<forall>j<ncols (AVs P). mcol (AVs P') j = mcol (AVs P) j)"
  using assms
proof (induction vs arbitrary: P)
  case Nil
  then show ?case by simp
next
  case (Cons v vs)
  from Cons.prems(2) obtain P1 r where
    step: "ProjectedMatrix_dot A_dot P v = Inr (P1, r)"
    and rest: "ProjectedMatrix_dots A_dot P1 vs = Inr P'"
    by (auto split: sum.splits prod.splits)
  from projected_dot_step[OF Cons.prems(1) step]
  have inv1: "pm_inv P1"
    and n1: "ncols (Vs P1) = ncols (Vs P) + 1" "ncols (AVs P1) = ncols (AVs P) + 1"
    and c1: "\<forall>j<ncols (Vs P). mcol (Vs P1) j = mcol (Vs P) j"
            "\<forall>j<ncols (AVs P). mcol (AVs P1) j = mcol (AVs P) j"
    by auto
  from Cons.IH[OF inv1 rest] n1 c1 show ?case by auto
qed

lemma projected_init_inv: "pm_inv (ProjectedMatrix_init a T)"
  by (simp add: pm_inv_def ProjectedMatrix_init_def wf_matrix_def list_all_length)

lemma projected_dot_returns:
  assumes "pm_inv P" "0 < dtrue P" "np_dot_mv (Tm P) v_m = Inr v"
    "A_dot (pm_A P) v = Inr (a', w)" "length w = dtrue P"
  shows "\<exists>P' r. ProjectedMatrix_dot A_dot P v_m = Inr (P', r)"
proof -
  from assms have lv: "length v = dtrue P"
    by (auto simp: np_dot_mv_def pm_inv_def split: if_splits)
  show ?thesis
    using assms lv
    by (auto simp: ProjectedMatrix_dot_def reshape_rows_def np_hstack_def np_dot_mv_def
        mtranspose_def pm_inv_def split: sum.splits)
qed

text \<open>
  C6. The constructor builds an operator that satisfies \<open>pm_inv\<close>, and \<open>dot\<close> keeps it. On
  such an operator an
  apply that returns has returned \<open>Tm\<^sup>T (A (Tm v_m))\<close>, has appended the full-space
  probe \<open>Tm v_m\<close> as the one new last column of \<open>Vs\<close> and its image as the one new last
  column of \<open>AVs\<close>, and has kept every older column in its place. It does return when
  \<open>Tm v_m\<close> is defined, \<open>Tm\<close> has a row, and the wrapped operator returns a vector of
  \<open>dtrue\<close> entries. After any sequence of applies both histories have one column more
  per apply and every column they had before is where it was.
\<close>

theorem projected_dot_appends:
  assumes "pm_inv P"
  shows "pm_inv (ProjectedMatrix_init a0 T0)
       \<and> (ProjectedMatrix_dot A_dot P v_m = Inr (P', r) \<longrightarrow>
            (\<exists>v a' w. np_dot_mv (Tm P) v_m = Inr v \<and> A_dot (pm_A P) v = Inr (a', w)
               \<and> np_dot_mv (mtranspose (Tm P)) w = Inr r
               \<and> ncols (Vs P') = ncols (Vs P) + 1 \<and> ncols (AVs P') = ncols (AVs P) + 1
               \<and> mcol (Vs P') (ncols (Vs P)) = v \<and> mcol (AVs P') (ncols (AVs P)) = w
               \<and> (\<forall>j<ncols (Vs P). mcol (Vs P') j = mcol (Vs P) j)
               \<and> (\<forall>j<ncols (AVs P). mcol (AVs P') j = mcol (AVs P) j)
               \<and> pm_inv P'))
       \<and> (0 < dtrue P \<and> np_dot_mv (Tm P) v_m = Inr u \<and> A_dot (pm_A P) u = Inr (b, y)
            \<and> length y = dtrue P \<longrightarrow>
            (\<exists>Q s. ProjectedMatrix_dot A_dot P v_m = Inr (Q, s)))
       \<and> (ProjectedMatrix_dots A_dot P vs = Inr P'' \<longrightarrow>
            pm_inv P'' \<and> ncols (Vs P'') = ncols (Vs P) + length vs
            \<and> ncols (AVs P'') = ncols (AVs P) + length vs
            \<and> (\<forall>j<ncols (Vs P). mcol (Vs P'') j = mcol (Vs P) j)
            \<and> (\<forall>j<ncols (AVs P). mcol (AVs P'') j = mcol (AVs P) j))"
proof (intro conjI impI)
  show "pm_inv (ProjectedMatrix_init a0 T0)"
    by (rule projected_init_inv)
next
  assume "ProjectedMatrix_dot A_dot P v_m = Inr (P', r)"
  from projected_dot_step[OF assms this]
  show "\<exists>v a' w. np_dot_mv (Tm P) v_m = Inr v \<and> A_dot (pm_A P) v = Inr (a', w)
               \<and> np_dot_mv (mtranspose (Tm P)) w = Inr r
               \<and> ncols (Vs P') = ncols (Vs P) + 1 \<and> ncols (AVs P') = ncols (AVs P) + 1
               \<and> mcol (Vs P') (ncols (Vs P)) = v \<and> mcol (AVs P') (ncols (AVs P)) = w
               \<and> (\<forall>j<ncols (Vs P). mcol (Vs P') j = mcol (Vs P) j)
               \<and> (\<forall>j<ncols (AVs P). mcol (AVs P') j = mcol (AVs P) j)
               \<and> pm_inv P'"
    by blast
next
  assume "0 < dtrue P \<and> np_dot_mv (Tm P) v_m = Inr u \<and> A_dot (pm_A P) u = Inr (b, y)
            \<and> length y = dtrue P"
  then show "\<exists>Q s. ProjectedMatrix_dot A_dot P v_m = Inr (Q, s)"
    using projected_dot_returns[OF assms] by blast
next
  assume run: "ProjectedMatrix_dots A_dot P vs = Inr P''"
  note h = projected_dots_history[OF assms run]
  show "pm_inv P''" using h by simp
  show "ncols (Vs P'') = ncols (Vs P) + length vs" using h by simp
  show "ncols (AVs P'') = ncols (AVs P) + length vs" using h by simp
  show "\<forall>j<ncols (Vs P). mcol (Vs P'') j = mcol (Vs P) j" using h by simp
  show "\<forall>j<ncols (AVs P). mcol (AVs P'') j = mcol (AVs P) j" using h by simp
qed

lemmas pm_eval = ProjectedMatrix_dot_def ProjectedMatrix_init_def dense_dot_def np_dot_mv_def
  reshape_rows_def np_hstack_def mtranspose_def mcol_def inner_def first_axis_def diag23_def

theorem projected_dot_appends_witness:
  "pm_inv (ProjectedMatrix_init () first_axis)
   \<and> ProjectedMatrix_dot (dense_dot diag23) (ProjectedMatrix_init () first_axis) [1]
       = Inr (probes_1, [2])
   \<and> ProjectedMatrix_dots (dense_dot diag23) (ProjectedMatrix_init () first_axis) [[1], [3]]
       = Inr probes_2
   \<and> ncols (Vs probes_1) = ncols (Vs (ProjectedMatrix_init () first_axis)) + 1
   \<and> mcol (Vs probes_1) 0 = [1, 0] \<and> mcol (AVs probes_1) 0 = [2, 0]
   \<and> ncols (Vs probes_2) = ncols (Vs (ProjectedMatrix_init () first_axis)) + 2
   \<and> pm_inv probes_2"
proof -
  let ?P = "ProjectedMatrix_init () first_axis"
  have inv: "pm_inv ?P"
    by (rule projected_init_inv)
  have run: "ProjectedMatrix_dot (dense_dot diag23) ?P [1] = Inr (probes_1, [2])"
    by (simp add: pm_eval probes_1_def)
  have run2: "ProjectedMatrix_dot (dense_dot diag23) probes_1 [3] = Inr (probes_2, [6])"
    by (simp add: pm_eval probes_1_def probes_2_def)
  have runs: "ProjectedMatrix_dots (dense_dot diag23) ?P [[1], [3]] = Inr probes_2"
    by (simp add: run run2)
  have pre: "0 < dtrue ?P \<and> np_dot_mv (Tm ?P) [1] = Inr [1, 0]
      \<and> dense_dot diag23 (pm_A ?P) [1, 0] = Inr ((), [2, 0]) \<and> length [2, 0 :: real] = dtrue ?P"
    by (simp add: pm_eval)
  note T = projected_dot_appends[OF inv, where A_dot = "dense_dot diag23" and v_m = "[1]"
      and P' = probes_1 and r = "[2]" and u = "[1, 0]" and b = "()" and y = "[2, 0]"
      and vs = "[[1], [3]]" and P'' = probes_2 and ?a0.0 = "()" and ?T0.0 = first_axis]
  from T run pre runs
  have "ncols (Vs probes_1) = ncols (Vs ?P) + 1 \<and> pm_inv probes_2
        \<and> ncols (Vs probes_2) = ncols (Vs ?P) + 2"
    by auto
  moreover have "mcol (Vs probes_1) 0 = [1, 0] \<and> mcol (AVs probes_1) 0 = [2, 0]"
    by (simp add: probes_1_def mcol_def)
  ultimately show ?thesis
    using inv run runs by simp
qed

subsection \<open>MatrixSum\<close>

lemma symmetric_summands_adjoint:
  assumes "list_all (\<lambda>m. mtranspose (summand_matrix m) = summand_matrix m) (matrices S)"
  shows "map summand_adjoint (matrices S) = matrices S"
  using assms
  by (induction "matrices S" arbitrary: S)
     (auto simp: summand_adjoint_def summand_matrix_def list_all_iff map_idI split: summand.splits)

text \<open>
  C10, as the code has it. \<open>MatrixSum._adjoint\<close> and \<open>MatrixSum._transpose\<close> return the
  sum itself. That is the sum of the summands' adjoints whenever every summand is its
  own transpose. The constructor makes no such check: it accepts any one wrapped
  matrix, and for the sum of the one matrix with a single entry above the diagonal the
  product with the returned "adjoint" is not the product with the summands' adjoints.
\<close>

theorem sum_adjoint_is_self:
  "MatrixSum_adjoint S = S \<and> MatrixSum_transpose S = S
   \<and> (list_all (\<lambda>m. mtranspose (summand_matrix m) = summand_matrix m) (matrices S) \<longrightarrow>
        MatrixSum_matvec (MatrixSum_adjoint S) v = MatrixSum_matvec (termwise_adjoint S) v)
   \<and> MatrixSum_init [Plain (Wrapped M)] = Inr \<lparr>shape = shape_of M, matrices = [Wrapped M]\<rparr>
   \<and> MatrixSum_matvec (MatrixSum_adjoint \<lparr>shape = (2, 2), matrices = [Wrapped upper2]\<rparr>) [1, 0]
       = Inr [0, 0]
   \<and> MatrixSum_matvec (termwise_adjoint \<lparr>shape = (2, 2), matrices = [Wrapped upper2]\<rparr>) [1, 0]
       = Inr [0, 1]"
proof (intro conjI impI)
  show "MatrixSum_adjoint S = S" by (simp add: MatrixSum_adjoint_def)
  show "MatrixSum_transpose S = S" by (simp add: MatrixSum_transpose_def)
  show "MatrixSum_init [Plain (Wrapped M)] = Inr \<lparr>shape = shape_of M, matrices = [Wrapped M]\<rparr>"
    by (simp add: MatrixSum_init_def flatten_args_def summand_shape_def)
  show "MatrixSum_matvec (MatrixSum_adjoint \<lparr>shape = (2, 2), matrices = [Wrapped upper2]\<rparr>) [1, 0]
       = Inr [0, 0]"
    by (simp add: MatrixSum_adjoint_def MatrixSum_matvec_def summand_dot_def
        MatrixWrapper_matvec_def np_dot_mv_def upper2_def inner_def np_iadd_def)
  show "MatrixSum_matvec (termwise_adjoint \<lparr>shape = (2, 2), matrices = [Wrapped upper2]\<rparr>) [1, 0]
       = Inr [0, 1]"
    by (simp add: termwise_adjoint_def summand_adjoint_def MatrixSum_matvec_def summand_dot_def
        MatrixWrapper_matvec_def np_dot_mv_def upper2_def inner_def np_iadd_def mtranspose_def
        mcol_def upt_conv_Cons)
next
  assume "list_all (\<lambda>m. mtranspose (summand_matrix m) = summand_matrix m) (matrices S)"
  from symmetric_summands_adjoint[OF this]
  show "MatrixSum_matvec (MatrixSum_adjoint S) v = MatrixSum_matvec (termwise_adjoint S) v"
    by (simp add: MatrixSum_adjoint_def MatrixSum_matvec_def termwise_adjoint_def)
qed

theorem sum_adjoint_is_self_witness:
  "list_all (\<lambda>m. mtranspose (summand_matrix m) = summand_matrix m)
     (matrices \<lparr>shape = (2, 2), matrices = [Wrapped sym2]\<rparr>)
   \<and> MatrixSum_matvec (MatrixSum_adjoint \<lparr>shape = (2, 2), matrices = [Wrapped sym2]\<rparr>) [1, 0]
       = MatrixSum_matvec (termwise_adjoint \<lparr>shape = (2, 2), matrices = [Wrapped sym2]\<rparr>) [1, 0]
   \<and> MatrixSum_matvec (termwise_adjoint \<lparr>shape = (2, 2), matrices = [Wrapped sym2]\<rparr>) [1, 0]
       = Inr [2, 1]"
proof -
  let ?S = "\<lparr>shape = (2, 2), matrices = [Wrapped sym2]\<rparr>"
  have h: "list_all (\<lambda>m. mtranspose (summand_matrix m) = summand_matrix m) (matrices ?S)"
    by (simp add: summand_matrix_def mtranspose_def mcol_def sym2_def upt_conv_Cons)
  have v: "MatrixSum_matvec (termwise_adjoint ?S) [1, 0] = Inr [2, 1]"
    by (simp add: termwise_adjoint_def summand_adjoint_def MatrixSum_matvec_def summand_dot_def
        MatrixWrapper_matvec_def np_dot_mv_def sym2_def inner_def np_iadd_def mtranspose_def
        mcol_def upt_conv_Cons)
  from sum_adjoint_is_self[of ?S "[1, 0]"] h
  have "MatrixSum_matvec (MatrixSum_adjoint ?S) [1, 0]
          = MatrixSum_matvec (termwise_adjoint ?S) [1, 0]"
    by blast
  with h v show ?thesis
    by blast
qed

lemma mixed_sum_matvec:
  "MatrixSum_matvec (MatrixSum_adjoint mixed_sum) v
     = MatrixSum_matvec (termwise_adjoint mixed_sum) v"
proof (cases "length v = 2")
  case True
  then obtain a b where v: "v = [a, b]"
    by (cases v; cases "tl v"; auto)
  show ?thesis
    by (simp add: v mixed_sum_def MatrixSum_adjoint_def termwise_adjoint_def summand_adjoint_def
        MatrixSum_matvec_def summand_dot_def MatrixWrapper_matvec_def np_dot_mv_def upper2_def
        lower2_def inner_def np_iadd_def mtranspose_def mcol_def upt_conv_Cons)
next
  case False
  then show ?thesis
    by (cases "matrices mixed_sum")
       (auto simp: mixed_sum_def MatrixSum_adjoint_def termwise_adjoint_def summand_adjoint_def
        MatrixSum_matvec_def summand_dot_def MatrixWrapper_matvec_def np_dot_mv_def upper2_def
        lower2_def mtranspose_def)
qed

text \<open>
  C10, as the claim states it, fails: the returned "adjoint" can be right without any
  self-adjoint summand. The constructor builds the sum of the matrix with a single entry
  above the diagonal and the matrix with a single entry below it; neither summand is its
  own transpose, and the product with the returned "adjoint" is the product with the
  summands' adjoints, for every vector (the two products are the same function).
\<close>

theorem sum_adjoint_right_without_symmetric_summands:
  "MatrixSum_init [Plain (Wrapped upper2), Plain (Wrapped lower2)] = Inr mixed_sum
   \<and> mtranspose (summand_matrix (Wrapped upper2)) \<noteq> summand_matrix (Wrapped upper2)
   \<and> mtranspose (summand_matrix (Wrapped lower2)) \<noteq> summand_matrix (Wrapped lower2)
   \<and> MatrixSum_matvec (MatrixSum_adjoint mixed_sum)
       = MatrixSum_matvec (termwise_adjoint mixed_sum)"
proof -
  have "MatrixSum_init [Plain (Wrapped upper2), Plain (Wrapped lower2)] = Inr mixed_sum"
    by (simp add: MatrixSum_init_def flatten_args_def summand_shape_def shape_of_def
        mixed_sum_def upper2_def lower2_def)
  moreover
  have "mtranspose (summand_matrix (Wrapped upper2)) \<noteq> summand_matrix (Wrapped upper2)"
    by (simp add: summand_matrix_def mtranspose_def mcol_def upper2_def upt_conv_Cons)
  moreover
  have "mtranspose (summand_matrix (Wrapped lower2)) \<noteq> summand_matrix (Wrapped lower2)"
    by (simp add: summand_matrix_def mtranspose_def mcol_def lower2_def upt_conv_Cons)
  moreover
  have "MatrixSum_matvec (MatrixSum_adjoint mixed_sum)
          = MatrixSum_matvec (termwise_adjoint mixed_sum)"
    by (rule ext) (rule mixed_sum_matvec)
  ultimately show ?thesis by blast
qed

section \<open>Properties of the generic controller\<close>

lemma np_all_eq_refl: "np_all_eq x x"
  by (auto simp: np_all_eq_def np_binop_def list_all_iff zip_same)

lemma quadratic_model_frame:
  assumes "quadratic_model s x fv fl = Inr s'"
  shows "world s' = world s \<and> calls s' = calls s \<and> xlast s' = xlast s \<and> glast s' = glast s
         \<and> flast s' = flast s \<and> Hess s' = Hess s"
  using assms
  by (auto simp: quadratic_model_def Let_def split: option.splits sum.splits)

lemma hessian_update_frame:
  assumes "hessian_update ext s x xl g gl = Inr s'"
  shows "world s' = world s \<and> calls s' = calls s \<and> xlast s' = xlast s \<and> glast s' = glast s
         \<and> flast s' = flast s \<and> df s' = df s \<and> df_pred s' = df_pred s \<and> ratio s' = ratio s"
  using assms
  by (auto simp: hessian_update_def split: option.splits sum.splits prod.splits)

lemma f_update_hit:
  assumes "is_cached s x"
  shows "f_update ext s x = Inr (s, flast s, glast s)"
  using assms by (simp add: f_update_def)

lemma f_update_miss:
  assumes "\<not> is_cached s x" and "f_update ext s x = Inr (s1, r1)"
  shows "\<exists>w' fv g. pot ext (world s) x = Inr (w', fv, g) \<and> world s1 = w'
           \<and> calls s1 = calls s + 1 \<and> xlast s1 = Some x \<and> flast s1 = Some fv
           \<and> glast s1 = Some g \<and> r1 = (Some fv, Some g) \<and> xlast2 s1 = xlast s"
  using assms unfolding f_update_def Let_def
  by (auto split: sum.splits prod.splits option.splits
      dest!: quadratic_model_frame hessian_update_frame)

text \<open>
  C1. \<open>MinMode.f_update\<close> at the position it evaluated last returns the state as it was
  with the cached pair \<open>(flast, glast)\<close>: nothing is evaluated and nothing changes. A call
  that returns, made again with the same \<open>x\<close>, returns the same pair and the same state;
  over the two calls \<open>calls\<close> grows by one if \<open>x\<close> was new and not at all if it was
  cached, and so does the number of times the potential was entered.
\<close>

theorem f_update_cached:
  "(xlast s = Some x \<longrightarrow> f_update ext s x = Inr (s, flast s, glast s))
   \<and> (f_update ext s x = Inr (s1, r1) \<longrightarrow>
        f_update ext s1 x = Inr (s1, r1)
        \<and> calls s1 = calls s + (if is_cached s x then 0 else 1))
   \<and> (pot ext = counted fn \<and> f_update ext s x = Inr (s1, r1) \<longrightarrow>
        fst (world s1) = fst (world s) + (if is_cached s x then 0 else 1))"
proof (intro conjI impI)
  assume "xlast s = Some x"
  then have "is_cached s x" by (simp add: is_cached_def np_all_eq_refl)
  then show "f_update ext s x = Inr (s, flast s, glast s)" by (rule f_update_hit)
next
  assume run: "f_update ext s x = Inr (s1, r1)"
  show "f_update ext s1 x = Inr (s1, r1)"
  proof (cases "is_cached s x")
    case True
    with run show ?thesis by (auto simp: f_update_def)
  next
    case False
    from f_update_miss[OF False run]
    have "xlast s1 = Some x" "r1 = (flast s1, glast s1)" by auto
    then show ?thesis
      by (simp add: f_update_hit is_cached_def np_all_eq_refl)
  qed
  show "calls s1 = calls s + (if is_cached s x then 0 else 1)"
  proof (cases "is_cached s x")
    case True
    with run show ?thesis by (simp add: f_update_def)
  next
    case False
    from f_update_miss[OF False run] False show ?thesis by auto
  qed
next
  assume a: "pot ext = counted fn \<and> f_update ext s x = Inr (s1, r1)"
  show "fst (world s1) = fst (world s) + (if is_cached s x then 0 else 1)"
  proof (cases "is_cached s x")
    case True
    with a show ?thesis by (simp add: f_update_def)
  next
    case False
    from a have run: "f_update ext s x = Inr (s1, r1)" and c: "pot ext = counted fn"
      by simp_all
    from f_update_miss[OF False run] obtain w' fv g where
      "pot ext (world s) x = Inr (w', fv, g)" "world s1 = w'"
      by auto
    with c have "counted fn (world s) x = Inr (world s1, fv, g)"
      by simp
    then have "fst (world s1) = Suc (fst (world s))"
      by (auto simp: counted_def split: sum.splits prod.splits) (metis fst_conv)
    with False show ?thesis by simp
  qed
qed

lemma quadratic_model_values:
  assumes "quadratic_model s x fv fl = Inr s'" "xlast s = Some xl" "glast s = Some gl"
  shows "\<exists>dx gd H t q. np_sub x xl = Inr dx \<and> np_dot_vv gl dx = Inr gd \<and> Hess s = Some H
           \<and> np_dot_vm dx H = Inr t \<and> np_dot_vv t dx = Inr q
           \<and> df s' = Some (fv - fl) \<and> df_pred s' = Some (gd + q / 2)
           \<and> ratio s' = Some (np_true_divide (gd + q / 2) (fv - fl))"
  using assms
  by (auto simp: quadratic_model_def Let_def split: option.splits sum.splits)

lemma f_update_model:
  assumes miss: "\<not> is_cached s x" and fl: "flast s = Some fl" and xl: "xlast s = Some xl"
    and gl: "glast s = Some gl" and run: "f_update ext s x = Inr (s', r)"
  shows "\<exists>w' fv g dx gd H t q. pot ext (world s) x = Inr (w', fv, g)
           \<and> np_sub x xl = Inr dx \<and> np_dot_vv gl dx = Inr gd \<and> Hess s = Some H
           \<and> np_dot_vm dx H = Inr t \<and> np_dot_vv t dx = Inr q
           \<and> df s' = Some (fv - fl) \<and> df_pred s' = Some (gd + q / 2)
           \<and> ratio s' = Some (np_true_divide (gd + q / 2) (fv - fl))"
proof -
  from miss run fl obtain w' fv g s2 s3 where
    p: "pot ext (world s) x = Inr (w', fv, g)"
    and s2: "quadratic_model (s\<lparr>calls := calls s + 1, world := w'\<rparr>) x fv fl = Inr s2"
    and s3: "(case xlast s2 of None \<Rightarrow> Inr s2
              | Some xl \<Rightarrow> (case glast s2 of None \<Rightarrow> Inr s2
                            | Some gl \<Rightarrow> hessian_update ext s2 x xl g gl)) = Inr s3"
    and s': "s' = s3\<lparr>flast := Some fv, xlast2 := xlast s3, xlast := Some x, glast := Some g\<rparr>"
    unfolding f_update_def Let_def
    by (simp split: sum.splits prod.splits)
  from quadratic_model_values[OF s2, simplified, OF xl gl] obtain dx gd H t q where
    m: "np_sub x xl = Inr dx" "np_dot_vv gl dx = Inr gd" "Hess s = Some H"
       "np_dot_vm dx H = Inr t" "np_dot_vv t dx = Inr q"
    and v: "df s2 = Some (fv - fl)" "df_pred s2 = Some (gd + q / 2)"
       "ratio s2 = Some (np_true_divide (gd + q / 2) (fv - fl))"
    by auto
  from s3 have "df s3 = df s2 \<and> df_pred s3 = df_pred s2 \<and> ratio s3 = ratio s2"
    by (auto split: option.splits dest: hessian_update_frame)
  with p m v s' show ?thesis by auto
qed

lemma quadratic_model_ratio_unread:
  "map_sum id (\<lambda>s'. s'\<lparr>ratio := None\<rparr>) (quadratic_model (s\<lparr>ratio := q\<rparr>) x fv fl)
   = map_sum id (\<lambda>s'. s'\<lparr>ratio := None\<rparr>) (quadratic_model s x fv fl)"
  by (auto simp: quadratic_model_def Let_def split: option.splits sum.splits)

lemma f_update_ratio_unread:
  "map_sum id (\<lambda>(s', r). (s'\<lparr>ratio := None\<rparr>, r)) (f_update ext (s\<lparr>ratio := q\<rparr>) x)
   = map_sum id (\<lambda>(s', r). (s'\<lparr>ratio := None\<rparr>, r)) (f_update ext s x)"
  apply (auto simp: f_update_def is_cached_def Let_def quadratic_model_def hessian_update_def split: option.splits sum.splits prod.splits)
  done

text \<open>
  C2. \<open>MinMode.f_dimer\<close> raises TypeError for every anchor, every controller state and
  every potential: \<open>f_minmode\<close> is given the controller as its \<open>x0\<close>, and its first
  statement takes \<open>len\<close> of it. No search is made and no gradient is decomposed.
\<close>

theorem f_dimer_raises: "f_dimer ext s anchor = Inl TypeError"
  by (simp add: f_dimer_def f_minmode_def py_len_def)

lemmas f_update_eval = f_update_def is_cached_def np_all_eq_def np_binop_def quadratic_model_def
  hessian_update_def np_sub_def np_dot_vv_def np_dot_vm_def inner_def mcol_def
  np_true_divide_def ext_quad_def counted_def quad_pot_def keep_H_def eigh_diag_def np_eye_def
  at_origin_def at_two_def

lemma run_at_two: "f_update ext_quad at_origin [2] = Inr (at_two, Some 2, Some [2])"
  by (simp add: f_update_eval)

text \<open>
  C5, as the claim states it, fails: from the origin (value 0, gradient 0, Hessian
  \<open>[[2]]\<close>) to \<open>[2]\<close> on the quadratic potential the actual change is 2 and the predicted
  one is 4; the stored ratio is 2, predicted over actual, and not 2 / 4.
\<close>

theorem f_update_ratio_is_predicted_over_actual:
  "map_sum id (\<lambda>(s', r). (df s', df_pred s', ratio s')) (f_update ext_quad at_origin [2])
     = Inr (Some 2, Some 4, Some (Finite 2))
   \<and> np_true_divide 2 4 \<noteq> Finite 2"
  unfolding run_at_two by (simp add: at_two_def at_origin_def np_true_divide_def)

theorem f_update_cached_witness:
  "xlast at_origin = Some [0]
   \<and> f_update ext_quad at_origin [0] = Inr (at_origin, Some 0, Some [0])
   \<and> pot ext_quad = counted quad_pot
   \<and> f_update ext_quad at_origin [2] = Inr (at_two, Some 2, Some [2])
   \<and> f_update ext_quad at_two [2] = Inr (at_two, Some 2, Some [2])
   \<and> calls at_two = calls at_origin + 1
   \<and> fst (world at_two) = fst (world at_origin) + 1"
proof -
  have x: "xlast at_origin = Some [0]" and fg: "flast at_origin = Some 0" "glast at_origin = Some [0]"
    by (simp_all add: at_origin_def)
  have p: "pot ext_quad = counted quad_pot"
    by (simp add: ext_quad_def)
  have miss: "\<not> is_cached at_origin [2]"
    by (simp add: f_update_eval)
  note T = f_update_cached[of at_origin "[0]" ext_quad]
  note U = f_update_cached[of at_origin "[2]" ext_quad at_two "(Some 2, Some [2])" quad_pot]
  from T x fg have 1: "f_update ext_quad at_origin [0] = Inr (at_origin, Some 0, Some [0])"
    by simp
  from U run_at_two p miss
  have 2: "f_update ext_quad at_two [2] = Inr (at_two, Some 2, Some [2])
           \<and> calls at_two = calls at_origin + 1
           \<and> fst (world at_two) = fst (world at_origin) + 1"
    by simp
  from x 1 p run_at_two 2 show ?thesis by simp
qed

lemma f_update_returns:
  assumes "\<not> is_cached s x" "flast s = Some fl" "xlast s = Some xl" "glast s = Some gl"
    "Hess s = Some H" "length xl = length x" "length gl = length x"
    "length (rows H) = length x" "ncols H = length x"
    "pot ext (world s) x = Inr (w', fv, g)" "length g = length x"
    "update_H ext (Some H) (Arr1 (map2 (-) x xl)) (Arr1 (map2 (-) g gl)) = Inr H'"
    "eigh ext H' = Inr (ls, vs)"
  shows "\<exists>s' r. f_update ext s x = Inr (s', r)"
  using assms
  by (simp add: f_update_def quadratic_model_def hessian_update_def np_sub_def np_binop_def
      np_dot_vv_def np_dot_vm_def Let_def)

text \<open>
  C5, as the code has it. An evaluation at a new position that returns, with a previous
  value, position and gradient cached, has stored \<open>df = f - flast\<close>, the predicted change
  \<open>df_pred = glast . dx + (dx . H dx) / 2\<close> with \<open>dx = x - xlast\<close> and the Hessian of
  before the update, and \<open>ratio = df_pred / df\<close>: the predicted change over the actual
  one (not finite when the actual change is 0). It does return when the shapes agree
  and the potential, the update and the eigendecomposition return. The value \<open>ratio\<close>
  held before has no influence on the result or on any other attribute.
\<close>

theorem f_update_stores_ratio:
  "(\<not> is_cached s x \<and> flast s = Some fl \<and> xlast s = Some xl \<and> glast s = Some gl
      \<and> f_update ext s x = Inr (s', r) \<longrightarrow>
      (\<exists>w' fv g dx gd H t q. pot ext (world s) x = Inr (w', fv, g)
         \<and> np_sub x xl = Inr dx \<and> np_dot_vv gl dx = Inr gd \<and> Hess s = Some H
         \<and> np_dot_vm dx H = Inr t \<and> np_dot_vv t dx = Inr q
         \<and> df s' = Some (fv - fl) \<and> df_pred s' = Some (gd + q / 2)
         \<and> ratio s' = Some (np_true_divide (gd + q / 2) (fv - fl))))
   \<and> (\<not> is_cached s x \<and> flast s = Some fl \<and> xlast s = Some xl \<and> glast s = Some gl
      \<and> Hess s = Some H0 \<and> length xl = length x \<and> length gl = length x
      \<and> length (rows H0) = length x \<and> ncols H0 = length x
      \<and> pot ext (world s) x = Inr (w0, f0, g0) \<and> length g0 = length x
      \<and> update_H ext (Some H0) (Arr1 (map2 (-) x xl)) (Arr1 (map2 (-) g0 gl)) = Inr H1
      \<and> eigh ext H1 = Inr (ls, vs) \<longrightarrow>
      (\<exists>s1 r1. f_update ext s x = Inr (s1, r1)))
   \<and> map_sum id (\<lambda>(s', r). (s'\<lparr>ratio := None\<rparr>, r)) (f_update ext (s\<lparr>ratio := q0\<rparr>) x)
       = map_sum id (\<lambda>(s', r). (s'\<lparr>ratio := None\<rparr>, r)) (f_update ext s x)"
proof (intro conjI impI)
  assume "\<not> is_cached s x \<and> flast s = Some fl \<and> xlast s = Some xl \<and> glast s = Some gl
      \<and> f_update ext s x = Inr (s', r)"
  then show "\<exists>w' fv g dx gd H t q. pot ext (world s) x = Inr (w', fv, g)
         \<and> np_sub x xl = Inr dx \<and> np_dot_vv gl dx = Inr gd \<and> Hess s = Some H
         \<and> np_dot_vm dx H = Inr t \<and> np_dot_vv t dx = Inr q
         \<and> df s' = Some (fv - fl) \<and> df_pred s' = Some (gd + q / 2)
         \<and> ratio s' = Some (np_true_divide (gd + q / 2) (fv - fl))"
    using f_update_model[of s x fl xl gl ext s' r] by blast
next
  assume "\<not> is_cached s x \<and> flast s = Some fl \<and> xlast s = Some xl \<and> glast s = Some gl
      \<and> Hess s = Some H0 \<and> length xl = length x \<and> length gl = length x
      \<and> length (rows H0) = length x \<and> ncols H0 = length x
      \<and> pot ext (world s) x = Inr (w0, f0, g0) \<and> length g0 = length x
      \<and> update_H ext (Some H0) (Arr1 (map2 (-) x xl)) (Arr1 (map2 (-) g0 gl)) = Inr H1
      \<and> eigh ext H1 = Inr (ls, vs)"
  then show "\<exists>s1 r1. f_update ext s x = Inr (s1, r1)"
    using f_update_returns[of s x fl xl gl H0 ext w0 f0 g0 H1 ls vs] by blast
next
  show "map_sum id (\<lambda>(s', r). (s'\<lparr>ratio := None\<rparr>, r)) (f_update ext (s\<lparr>ratio := q0\<rparr>) x)
       = map_sum id (\<lambda>(s', r). (s'\<lparr>ratio := None\<rparr>, r)) (f_update ext s x)"
    by (rule f_update_ratio_unread)
qed

theorem f_update_stores_ratio_witness:
  "\<not> is_cached at_origin [2] \<and> flast at_origin = Some 0 \<and> xlast at_origin = Some [0]
   \<and> glast at_origin = Some [0] \<and> f_update ext_quad at_origin [2] = Inr (at_two, Some 2, Some [2])
   \<and> df at_two = Some (2 - 0) \<and> df_pred at_two = Some 4 \<and> ratio at_two = Some (Finite 2)
   \<and> (\<exists>s1 r1. f_update ext_quad at_origin [2] = Inr (s1, r1))"
proof -
  have h: "\<not> is_cached at_origin [2] \<and> flast at_origin = Some 0 \<and> xlast at_origin = Some [0]
      \<and> glast at_origin = Some [0] \<and> f_update ext_quad at_origin [2] = Inr (at_two, Some 2, Some [2])"
    using run_at_two by (simp add: at_origin_def is_cached_def np_all_eq_def np_binop_def)
  have k: "Hess at_origin = Some \<lparr>ncols = 1, rows = [[2]]\<rparr>
      \<and> pot ext_quad (world at_origin) [2] = Inr ((2, ()), 2, [2])
      \<and> update_H ext_quad (Some \<lparr>ncols = 1, rows = [[2]]\<rparr>) (Arr1 (map2 (-) [2] [0]))
            (Arr1 (map2 (-) [2] [0])) = Inr \<lparr>ncols = 1, rows = [[2]]\<rparr>
      \<and> eigh ext_quad \<lparr>ncols = 1, rows = [[2]]\<rparr> = Inr ([2], \<lparr>ncols = 1, rows = [[1]]\<rparr>)"
    by (simp add: f_update_eval)
  note T = f_update_stores_ratio[of at_origin "[2]" 0 "[0]" "[0]" ext_quad at_two
      "(Some 2, Some [2])" "\<lparr>ncols = 1, rows = [[2]]\<rparr>" "(2, ())" 2 "[2]"
      "\<lparr>ncols = 1, rows = [[2]]\<rparr>" "[2]" "\<lparr>ncols = 1, rows = [[1]]\<rparr>"]
  from T h obtain w' fv g dx gd H t q where
    e: "pot ext_quad (world at_origin) [2] = Inr (w', fv, g)"
      "np_sub [2] [0] = Inr dx" "np_dot_vv [0] dx = Inr gd" "Hess at_origin = Some H"
      "np_dot_vm dx H = Inr t" "np_dot_vv t dx = Inr q"
      "df at_two = Some (fv - 0)" "df_pred at_two = Some (gd + q / 2)"
      "ratio at_two = Some (np_true_divide (gd + q / 2) (fv - 0))"
    by blast
  from e have "fv = 2" "dx = [2]" "gd = 0" "H = \<lparr>ncols = 1, rows = [[2]]\<rparr>"
    by (auto simp: f_update_eval)
  with e have "t = [4]" "q = 8"
    by (auto simp: f_update_eval)
  with e \<open>fv = 2\<close> \<open>gd = 0\<close>
  have v: "df at_two = Some (2 - 0) \<and> df_pred at_two = Some 4 \<and> ratio at_two = Some (Finite 2)"
    by (simp add: np_true_divide_def)
  from T h k have "\<exists>s1 r1. f_update ext_quad at_origin [2] = Inr (s1, r1)"
    by simp
  with h v show ?thesis by simp
qed

section \<open>Properties of the Cartesian controller\<close>

lemma concat_rows3_length:
  "list_all (\<lambda>r. length r = 3) P \<Longrightarrow> length (concat P) = 3 * length P"
  by (induction P) auto

lemma concat_rows3_nth:
  "list_all (\<lambda>r. length r = 3) P \<Longrightarrow> i < length P \<Longrightarrow> take 3 (drop (3 * i) (concat P)) = P ! i"
proof (induction P arbitrary: i)
  case Nil
  then show ?case by simp
next
  case (Cons r P)
  show ?case
  proof (cases i)
    case 0
    with Cons.prems show ?thesis by simp
  next
    case (Suc k)
    with Cons.prems have "take 3 (drop (3 * k) (concat P)) = P ! k"
      by (intro Cons.IH) auto
    with Suc Cons.prems show ?thesis by simp
  qed
qed

lemma reshape3_ravel:
  assumes "list_all (\<lambda>r. length r = 3) P"
  shows "reshape3 (ravel P) = Inr P"
proof -
  have "map (\<lambda>i. take 3 (drop (3 * i) (concat P))) [0..<length P] = P"
    using assms by (intro nth_equalityI) (auto simp: concat_rows3_nth)
  then show ?thesis
    using assms by (simp add: reshape3_def ravel_def concat_rows3_length)
qed

lemma reshape3_rows:
  assumes "reshape3 x = Inr xin"
  shows "length xin = length x div 3" "list_all (\<lambda>r. length r = 3) xin" "3 * length xin = length x"
proof -
  from assms have m: "length x mod 3 = 0"
    and xin: "xin = map (\<lambda>i. take 3 (drop (3 * i) x)) [0..<length x div 3]"
    by (auto simp: reshape3_def split: if_splits)
  show "length xin = length x div 3" by (simp add: xin)
  show "3 * length xin = length x" using m by (simp add: xin) presburger
  show "list_all (\<lambda>r. length r = 3) xin"
    using m by (auto simp: xin list_all_iff)
qed

lemma scatter_nth:
  assumes "scatter fx x0r xin idx n = Inr ps"
  shows "length ps = length idx
         \<and> (\<forall>j<length idx. ps ! j =
               (if int (idx ! j) \<in> set fx then x0r ! (idx ! j)
                else xin ! (n + length (filter (\<lambda>i. int i \<notin> set fx) (take j idx)))))"
  using assms
proof (induction idx arbitrary: n ps)
  case Nil
  then show ?case by simp
next
  case (Cons i rest)
  show ?case
  proof (cases "int i \<in> set fx")
    case True
    with Cons.prems obtain qs where q: "scatter fx x0r xin rest n = Inr qs" and ps: "ps = x0r ! i # qs"
      by (auto split: if_splits sum.splits)
    from Cons.IH[OF q] show ?thesis
      using True by (auto simp: ps nth_Cons split: nat.splits)
  next
    case False
    with Cons.prems obtain qs where q: "scatter fx x0r xin rest (Suc n) = Inr qs" and ps: "ps = xin ! n # qs"
      by (auto split: if_splits sum.splits)
    from Cons.IH[OF q] show ?thesis
      using False by (auto simp: ps nth_Cons split: nat.splits)
  qed
qed

lemma scatter_upt:
  assumes "scatter fx x0r xin [0..<N] 0 = Inr ps"
  shows "length ps = N"
    and "\<forall>i<N. ps ! i = (if int i \<in> set fx then x0r ! i else xin ! unfixed_rank fx i)"
  using scatter_nth[OF assms]
  by (auto simp: unfixed_rank_def unfixed_def take_upt)

lemma scatter_rows3:
  assumes "scatter fx x0r xin idx n = Inr ps"
    and "list_all (\<lambda>r. length r = 3) x0r" and "list_all (\<lambda>r. length r = 3) xin"
  shows "list_all (\<lambda>r. length r = 3) ps"
  using assms(1)
proof (induction idx arbitrary: n ps)
  case Nil
  then show ?case by simp
next
  case (Cons i rest)
  show ?case
  proof (cases "int i \<in> set fx")
    case True
    with Cons.prems obtain qs where q: "scatter fx x0r xin rest n = Inr qs"
      and ps: "ps = x0r ! i # qs" and i: "i < length x0r"
      by (auto split: if_splits sum.splits)
    from Cons.IH[OF q] assms(2) i show ?thesis
      by (auto simp: ps list_all_iff)
  next
    case False
    with Cons.prems obtain qs where q: "scatter fx x0r xin rest (Suc n) = Inr qs"
      and ps: "ps = xin ! n # qs" and n: "n < length xin"
      by (auto split: if_splits sum.splits)
    from Cons.IH[OF q] assms(3) n show ?thesis
      by (auto simp: ps list_all_iff)
  qed
qed

lemma gather_rows:
  assumes "gather fx f idx n g = Inr g'" "list_all (\<lambda>r. length r = 3) g"
  shows "length g' = length g \<and> list_all (\<lambda>r. length r = 3) g'"
  using assms
proof (induction idx arbitrary: n g)
  case Nil
  then show ?case by simp
next
  case (Cons i rest)
  show ?case
  proof (cases "int i \<in> set fx")
    case True
    with Cons show ?thesis by simp
  next
    case False
    with Cons.prems obtain r where r: "row3 (f ! i) = Inr r"
      and run: "gather fx f rest (Suc n) (g[n := r]) = Inr g'"
      by (auto split: if_splits sum.splits)
    from r have "length r = 3" by (auto simp: row3_def split: if_splits)
    with Cons.prems(2) have "list_all (\<lambda>r. length r = 3) (g[n := r])"
      by (auto simp: list_all_iff dest!: set_update_subset_insert[THEN subsetD])
    from Cons.IH[OF run this] show ?thesis by simp
  qed
qed

lemma gather_result:
  assumes "gather fx f idx n g = Inr g'" "list_all (\<lambda>r. length r = 3) f"
  shows "g' = take n g @ map (\<lambda>i. f ! i) (filter (\<lambda>i. int i \<notin> set fx) idx)
              @ drop (n + length (filter (\<lambda>i. int i \<notin> set fx) idx)) g"
  using assms
proof (induction idx arbitrary: n g)
  case Nil
  then show ?case by simp
next
  case (Cons i rest)
  show ?case
  proof (cases "int i \<in> set fx")
    case True
    with Cons show ?thesis by simp
  next
    case False
    with Cons.prems have i: "i < length f" and n: "n < length g"
      by (auto split: if_splits)
    with Cons.prems(2) have r: "row3 (f ! i) = Inr (f ! i)"
      by (simp add: row3_def list_all_length)
    with Cons.prems False i n have run: "gather fx f rest (Suc n) (g[n := f ! i]) = Inr g'"
      by simp
    from Cons.IH[OF run Cons.prems(2)] n False show ?thesis
      by (simp add: take_Suc_conv_app_nth)
  qed
qed

lemma gather_returns:
  assumes "list_all (\<lambda>r. length r = 3) f" "\<forall>i\<in>set idx. i < length f"
    "n + length (filter (\<lambda>i. int i \<notin> set fx) idx) \<le> length g"
  shows "\<exists>g'. gather fx f idx n g = Inr g'"
  using assms
proof (induction idx arbitrary: n g)
  case Nil
  then show ?case by simp
next
  case (Cons i rest)
  show ?case
  proof (cases "int i \<in> set fx")
    case True
    with Cons show ?thesis by simp
  next
    case False
    with Cons.prems have "row3 (f ! i) = Inr (f ! i)" "i < length f" "n < length g"
      by (auto simp: row3_def list_all_length)
    moreover have "\<exists>g'. gather fx f rest (Suc n) (g[n := f ! i]) = Inr g'"
      using Cons.prems False by (intro Cons.IH) auto
    ultimately show ?thesis using False by simp
  qed
qed

lemma scatter_returns:
  assumes "\<forall>i\<in>set idx. i < length x0r"
    "n + length (filter (\<lambda>i. int i \<notin> set fx) idx) \<le> length xin"
  shows "\<exists>ps. scatter fx x0r xin idx n = Inr ps"
  using assms
proof (induction idx arbitrary: n)
  case Nil
  then show ?case by simp
next
  case (Cons i rest)
  show ?case
  proof (cases "int i \<in> set fx")
    case True
    moreover have "\<exists>ps. scatter fx x0r xin rest n = Inr ps"
      using Cons.prems True by (intro Cons.IH) auto
    ultimately show ?thesis using Cons.prems by auto
  next
    case False
    moreover have "\<exists>ps. scatter fx x0r xin rest (Suc n) = Inr ps"
      using Cons.prems False by (intro Cons.IH) auto
    ultimately show ?thesis using Cons.prems by auto
  qed
qed

lemma gather_bounds:
  assumes "gather fx f idx n g = Inr g'"
  shows "\<forall>i\<in>set (filter (\<lambda>i. int i \<notin> set fx) idx). i < length f"
  using assms
proof (induction idx arbitrary: n g)
  case Nil
  then show ?case by simp
next
  case (Cons i rest)
  show ?case
  proof (cases "int i \<in> set fx")
    case True
    with Cons show ?thesis by simp
  next
    case False
    with Cons.prems obtain r where "i < length f"
      and run: "gather fx f rest (Suc n) (g[n := r]) = Inr g'"
      by (auto split: if_splits sum.splits)
    with Cons.IH[OF run] False show ?thesis by simp
  qed
qed

lemma eval_eg_fixed:
  assumes inv: "atoms_inv P fx s" and run: "eval_eg calc s x = Inr (s', e, g)"
  shows "\<exists>xin w' F. reshape3 x = Inr xin \<and> calc (world s) (positions s') = Inr (w', e, F)
     \<and> world s' = w' \<and> length (positions s') = length P
     \<and> (\<forall>i<length P. positions s' ! i =
            (if int i \<in> set fx then P ! i else xin ! unfixed_rank fx i))
     \<and> length g = length x
     \<and> (list_all (\<lambda>r. length r = 3) F \<and> length x = 3 * length (unfixed fx (length P)) \<longrightarrow>
          g = ravel (map (\<lambda>i. map uminus (F ! i)) (unfixed fx (length P))))
     \<and> atoms_inv P fx s' \<and> dim s' = dim s"
proof -
  from inv obtain c where c: "constraints s = Some c" "fixed c = Some fx" and ne: "fx \<noteq> []"
    and x0: "x0 s = ravel P" and P3: "list_all (\<lambda>r. length r = 3) P"
    and N: "length (positions s) = length P"
    by (auto simp: atoms_inv_def split: option.splits)
  have r0: "reshape3 (x0 s) = Inr P"
    by (simp add: x0 reshape3_ravel[OF P3])
  from run c ne r0 N obtain xin pos w' F gr where
    xin: "reshape3 x = Inr xin"
    and pos: "scatter fx P xin [0..<length P] 0 = Inr pos"
    and cl: "calc (world s) pos = Inr (w', e, F)"
    and gr: "gather fx (map (map uminus) F) [0..<length P] 0 (replicate (length xin) [0, 0, 0]) = Inr gr"
    and s': "s' = s\<lparr>world := w', positions := pos,
                    trajectory := map_option (\<lambda>t. t @ [pos]) (trajectory s)\<rparr>"
    and g: "g = ravel gr"
    by (auto simp: eval_eg_def Let_def split: sum.splits if_splits prod.splits)
  note sc = scatter_upt[OF pos]
  have z: "list_all (\<lambda>r. length r = 3) (replicate (length xin) [0, 0, 0 :: real])"
    by (simp add: list_all_iff)
  from gather_rows[OF gr z] have lg: "length gr = length xin" and g3: "list_all (\<lambda>r. length r = 3) gr"
    by simp_all
  have len: "length g = length x"
    using reshape3_rows(3)[OF xin] lg by (simp add: g ravel_def concat_rows3_length[OF g3])
  have gath: "g = ravel (map (\<lambda>i. map uminus (F ! i)) (unfixed fx (length P)))"
    if F3: "list_all (\<lambda>r. length r = 3) F" and lx: "length x = 3 * length (unfixed fx (length P))"
  proof -
    from F3 have f3: "list_all (\<lambda>r. length r = 3) (map (map uminus) F)"
      by (simp add: list_all_iff)
    from lx reshape3_rows(3)[OF xin] have k: "length xin = length (unfixed fx (length P))"
      by simp
    from gather_result[OF gr f3] k
    have "gr = map (\<lambda>i. map (map uminus) F ! i) (unfixed fx (length P))"
      by (simp add: unfixed_def)
    also have "\<dots> = map (\<lambda>i. map uminus (F ! i)) (unfixed fx (length P))"
      using gather_bounds[OF gr] by (intro map_cong) (auto simp: unfixed_def)
    finally show ?thesis by (simp add: g)
  qed
  have inv': "atoms_inv P fx s'"
    using sc c ne x0 P3 by (simp add: atoms_inv_def s')
  show ?thesis
    using xin cl sc len gath inv' by (auto simp: s')
qed

lemma eval_eg_returns:
  assumes inv: "atoms_inv P fx s" and lx: "length x = 3 * length (unfixed fx (length P))"
    and calc: "\<forall>pos. length pos = length P \<and> list_all (\<lambda>r. length r = 3) pos \<longrightarrow>
        (\<exists>w' e F. calc (world s) pos = Inr (w', e, F) \<and> length F = length P
           \<and> list_all (\<lambda>r. length r = 3) F)"
  shows "\<exists>s' e g. eval_eg calc s x = Inr (s', e, g)"
proof -
  from inv obtain c where c: "constraints s = Some c" "fixed c = Some fx" and ne: "fx \<noteq> []"
    and x0: "x0 s = ravel P" and P3: "list_all (\<lambda>r. length r = 3) P"
    and N: "length (positions s) = length P"
    by (auto simp: atoms_inv_def split: option.splits)
  have r0: "reshape3 (x0 s) = Inr P"
    by (simp add: x0 reshape3_ravel[OF P3])
  from lx obtain xin where xin: "reshape3 x = Inr xin"
    by (auto simp: reshape3_def)
  from reshape3_rows(3)[OF xin] lx have k: "length xin = length (unfixed fx (length P))"
    by simp
  have "\<exists>ps. scatter fx P xin [0..<length P] 0 = Inr ps"
    using k by (intro scatter_returns) (auto simp: unfixed_def)
  then obtain pos where pos: "scatter fx P xin [0..<length P] 0 = Inr pos" by blast
  from scatter_rows3[OF pos P3 reshape3_rows(2)[OF xin]] scatter_upt(1)[OF pos] calc
  obtain w' e F where
    cl: "calc (world s) pos = Inr (w', e, F)" and lF: "length F = length P"
    and F3: "list_all (\<lambda>r. length r = 3) F"
    by blast
  have "\<exists>g'. gather fx (map (map uminus) F) [0..<length P] 0 (replicate (length xin) [0, 0, 0]) = Inr g'"
    using k lF F3 by (intro gather_returns) (auto simp: unfixed_def list_all_iff)
  then obtain gr where
    gr: "gather fx (map (map uminus) F) [0..<length P] 0 (replicate (length xin) [0, 0, 0]) = Inr gr"
    by blast
  show ?thesis
    using xin c ne r0 N pos cl gr scatter_upt(1)[OF pos]
    by (simp add: eval_eg_def Let_def)
qed

lemma eval_seq_inv:
  assumes "atoms_inv P fx s" "eval_seq calc s xs = Inr s'"
  shows "atoms_inv P fx s' \<and> dim s' = dim s"
  using assms
proof (induction xs arbitrary: s)
  case Nil
  then show ?case by simp
next
  case (Cons x xs)
  from Cons.prems(2) obtain s1 e g where
    step: "eval_eg calc s x = Inr (s1, e, g)" and rest: "eval_seq calc s1 xs = Inr s'"
    by (auto split: sum.splits prod.splits)
  from eval_eg_fixed[OF Cons.prems(1) step] have "atoms_inv P fx s1" "dim s1 = dim s"
    by auto
  with Cons.IH[OF _ rest] show ?case by simp
qed

lemma init_inv:
  assumes "MinModeAtoms_init ext w P H0 v sh shf (Some uc) = Inr s0"
    and "list_all (\<lambda>r. length r = 3) P" and "u_fix uc = Some fx" and "fx \<noteq> []"
  shows "atoms_inv P fx s0 \<and> dim s0 = 3 * int (length P) - 3 * int (length fx)"
  using assms
  by (auto simp: MinModeAtoms_init_def Let_def atoms_inv_def nonempty_def
      split: sum.splits option.splits prod.splits)

text \<open>
  C8. For a Cartesian controller built with a non-empty list of fixed atoms (explicit
  constraints), after any sequence of evaluations every fixed atom is at its initial
  position. An evaluation that returns has set the positions to the initial row for each
  fixed atom and to the rows of the reduced vector, in order, for the others; its
  gradient has the length of the input and, when the input has three entries per atom
  that is not fixed, is the negated forces with the fixed atoms' rows dropped. The
  evaluation does return for such an input when the calculator, given a row of three
  coordinates per atom, returns a row of three force components per atom. With one atom fixed and an input of \<open>self.d\<close> entries the
  gradient has \<open>3 (N - 1)\<close> entries.
\<close>

theorem eval_eg_holds_fixed_atoms:
  assumes "MinModeAtoms_init ext w P H0 v sh shf (Some uc) = Inr s0"
    and "list_all (\<lambda>r. length r = 3) P" and "u_fix uc = Some fx" and "fx \<noteq> []"
    and "eval_seq calc s0 xs = Inr s"
  shows "(\<forall>i<length P. int i \<in> set fx \<longrightarrow> positions s ! i = P ! i)
     \<and> (eval_eg calc s x = Inr (s', e, g) \<longrightarrow>
          (\<exists>xin w' F. reshape3 x = Inr xin \<and> calc (world s) (positions s') = Inr (w', e, F)
             \<and> length (positions s') = length P
             \<and> (\<forall>i<length P. positions s' ! i =
                    (if int i \<in> set fx then P ! i else xin ! unfixed_rank fx i))
             \<and> length g = length x
             \<and> (list_all (\<lambda>r. length r = 3) F
                  \<and> length x = 3 * length (unfixed fx (length P)) \<longrightarrow>
                  g = ravel (map (\<lambda>i. map uminus (F ! i)) (unfixed fx (length P))))))
     \<and> (length x = 3 * length (unfixed fx (length P))
          \<and> (\<forall>pos. length pos = length P \<and> list_all (\<lambda>r. length r = 3) pos \<longrightarrow>
                (\<exists>w' e' F. calc (world s) pos = Inr (w', e', F) \<and> length F = length P
                   \<and> list_all (\<lambda>r. length r = 3) F)) \<longrightarrow>
          (\<exists>s1 e1 g1. eval_eg calc s x = Inr (s1, e1, g1)))
     \<and> (fx = [k] \<and> int (length x) = dim s \<and> eval_eg calc s x = Inr (s', e, g) \<longrightarrow>
          int (length g) = 3 * (int (length P) - 1))"
proof -
  from init_inv[OF assms(1-4)] have i0: "atoms_inv P fx s0"
    and d0: "dim s0 = 3 * int (length P) - 3 * int (length fx)"
    by simp_all
  from eval_seq_inv[OF i0 assms(5)] have inv: "atoms_inv P fx s" and d: "dim s = dim s0"
    by simp_all
  have A: "\<forall>i<length P. int i \<in> set fx \<longrightarrow> positions s ! i = P ! i"
    using inv by (simp add: atoms_inv_def)
  have B: "\<exists>xin w' F. reshape3 x = Inr xin \<and> calc (world s) (positions s') = Inr (w', e, F)
             \<and> length (positions s') = length P
             \<and> (\<forall>i<length P. positions s' ! i =
                    (if int i \<in> set fx then P ! i else xin ! unfixed_rank fx i))
             \<and> length g = length x
             \<and> (list_all (\<lambda>r. length r = 3) F
                  \<and> length x = 3 * length (unfixed fx (length P)) \<longrightarrow>
                  g = ravel (map (\<lambda>i. map uminus (F ! i)) (unfixed fx (length P))))"
    if "eval_eg calc s x = Inr (s', e, g)"
    using eval_eg_fixed[OF inv that] by blast
  have C: "\<exists>s1 e1 g1. eval_eg calc s x = Inr (s1, e1, g1)"
    if "length x = 3 * length (unfixed fx (length P))
          \<and> (\<forall>pos. length pos = length P \<and> list_all (\<lambda>r. length r = 3) pos \<longrightarrow>
                (\<exists>w' e' F. calc (world s) pos = Inr (w', e', F) \<and> length F = length P
                   \<and> list_all (\<lambda>r. length r = 3) F))"
    using that eval_eg_returns[OF inv, of x calc] by blast
  have D: "int (length g) = 3 * (int (length P) - 1)"
    if "fx = [k] \<and> int (length x) = dim s \<and> eval_eg calc s x = Inr (s', e, g)"
  proof -
    from that eval_eg_fixed[OF inv, of calc x s' e g] have "length g = length x" by blast
    with that d d0 show ?thesis by simp
  qed
  from A B C D show ?thesis by blast
qed

lemma init_two_atoms:
  "MinModeAtoms_init ext_none () two_atoms None None 1000 4 (Some fix_first) = Inr atoms_start"
  by (simp add: MinModeAtoms_init_def fix_first_def nonempty_def atoms_start_def two_atoms_def
      ravel_def)

lemmas eval_eg_eval = eval_eg_def reshape3_def atoms_start_def two_atoms_def spring_calc_def
  ravel_def inner_def row3_def upt_conv_Cons

lemma step_two_atoms:
  "eval_eg spring_calc atoms_start [2, 0, 0]
     = Inr (atoms_start\<lparr>positions := [[0, 0, 0], [2, 0, 0]]\<rparr>, 2, [2, 0, 0])"
  by (simp add: eval_eg_eval)

lemma step_two_atoms_again:
  "eval_eg spring_calc (atoms_start\<lparr>positions := [[0, 0, 0], [2, 0, 0]]\<rparr>) [5, 1, 0]
     = Inr (atoms_start\<lparr>positions := [[0, 0, 0], [5, 1, 0]]\<rparr>, 13, [5, 1, 0])"
  by (simp add: eval_eg_eval)

theorem eval_eg_holds_fixed_atoms_witness:
  "MinModeAtoms_init ext_none () two_atoms None None 1000 4 (Some fix_first) = Inr atoms_start
   \<and> list_all (\<lambda>r. length r = 3) two_atoms \<and> u_fix fix_first = Some [0]
   \<and> eval_seq spring_calc atoms_start [[2, 0, 0]]
       = Inr (atoms_start\<lparr>positions := [[0, 0, 0], [2, 0, 0]]\<rparr>)
   \<and> eval_eg spring_calc (atoms_start\<lparr>positions := [[0, 0, 0], [2, 0, 0]]\<rparr>) [5, 1, 0]
       = Inr (atoms_start\<lparr>positions := [[0, 0, 0], [5, 1, 0]]\<rparr>, 13, [5, 1, 0])
   \<and> positions (atoms_start\<lparr>positions := [[0, 0, 0], [2, 0, 0]]\<rparr>) ! 0 = two_atoms ! 0
   \<and> length [5, 1, 0 :: real] = 3 * length (unfixed [0] (length two_atoms))
   \<and> (\<exists>s1 e1 g1.
         eval_eg spring_calc (atoms_start\<lparr>positions := [[0, 0, 0], [2, 0, 0]]\<rparr>) [5, 1, 0]
           = Inr (s1, e1, g1))
   \<and> int (length [5, 1, 0 :: real]) = 3 * (int (length two_atoms) - 1)"
proof -
  let ?s = "atoms_start\<lparr>positions := [[0, 0, 0], [2, 0, 0]]\<rparr>"
  let ?s' = "atoms_start\<lparr>positions := [[0, 0, 0], [5, 1, 0]]\<rparr>"
  have h2: "list_all (\<lambda>r. length r = 3) two_atoms" by (simp add: two_atoms_def)
  have h3: "u_fix fix_first = Some [0]" by (simp add: fix_first_def)
  have h4: "[0 :: int] \<noteq> []" by simp
  have h5: "eval_seq spring_calc atoms_start [[2, 0, 0]] = Inr ?s"
    by (simp add: step_two_atoms)
  note T = eval_eg_holds_fixed_atoms[OF init_two_atoms h2 h3 h4 h5,
      where x = "[5, 1, 0]" and s' = ?s' and e = 13 and g = "[5, 1, 0]" and k = 0]
  have d: "int (length [5, 1, 0 :: real]) = dim ?s"
    by (simp add: atoms_start_def)
  have l: "length [5, 1, 0 :: real] = 3 * length (unfixed [0] (length two_atoms))"
    by (simp add: unfixed_def two_atoms_def upt_conv_Cons)
  have c: "\<forall>pos. length pos = length two_atoms \<and> list_all (\<lambda>r. length r = 3) pos \<longrightarrow>
      (\<exists>w' e' F. spring_calc (world ?s) pos = Inr (w', e', F) \<and> length F = length two_atoms
         \<and> list_all (\<lambda>r. length r = 3) F)"
  proof (intro allI impI)
    fix pos :: "vec list"
    assume a: "length pos = length two_atoms \<and> list_all (\<lambda>r. length r = 3) pos"
    have "spring_calc (world ?s) pos
            = Inr (world ?s, inner (ravel pos) (ravel pos) / 2, map (map uminus) pos)"
      by (simp only: spring_calc_def)
    moreover have "length (map (map uminus) pos) = length two_atoms
        \<and> list_all (\<lambda>r. length r = 3) (map (map uminus) pos)"
      using a by (simp add: list_all_iff)
    ultimately show "\<exists>w' e' F. spring_calc (world ?s) pos = Inr (w', e', F)
        \<and> length F = length two_atoms \<and> list_all (\<lambda>r. length r = 3) F"
      by blast
  qed
  from T have "positions ?s ! 0 = two_atoms ! 0"
    by (simp add: two_atoms_def)
  moreover from T l c
  have "\<exists>s1 e1 g1. eval_eg spring_calc ?s [5, 1, 0] = Inr (s1, e1, g1)"
    by blast
  moreover from T d step_two_atoms_again
  have "int (length [5, 1, 0 :: real]) = 3 * (int (length two_atoms) - 1)"
    by blast
  ultimately show ?thesis
    using init_two_atoms h2 h3 h5 step_two_atoms_again l by blast
qed

subsection \<open>res_constr\<close>

lemma np_mod_range:
  assumes "0 < b"
  shows "0 \<le> np_mod a b" "np_mod a b < b"
proof -
  from floor_divide_lower[OF assms, of a] show "0 \<le> np_mod a b"
    by (simp add: np_mod_def mult.commute)
  from floor_divide_upper[OF assms, of a] show "np_mod a b < b"
    by (simp add: np_mod_def algebra_simps)
qed

lemma wrap_dihedral_range: "- pi \<le> wrap_dihedral m t \<and> wrap_dihedral m t < pi"
  using np_mod_range[of "2 * pi" "m - t + pi"] by (simp add: wrap_dihedral_def)

lemma wrap_dihedral_congruent:
  "\<exists>k::int. wrap_dihedral m t = m - t + 2 * pi * of_int k"
  by (rule exI[of _ "- \<lfloor>(m - t + pi) / (2 * pi)\<rfloor>"]) (simp add: wrap_dihedral_def np_mod_def)

lemma sub_targets_frame:
  assumes "sub_targets ts n r = Inr (n', r')"
  shows "n' = n + length ts \<and> length r' = length r \<and> (\<forall>j\<ge>n'. r' ! j = r ! j)"
  using assms
proof (induction ts arbitrary: n r)
  case Nil
  then show ?case by simp
next
  case (Cons t ts)
  from Cons.prems have run: "sub_targets ts (Suc n) (r[n := r ! n - t]) = Inr (n', r')"
    by (auto split: if_splits)
  from Cons.IH[OF run] show ?case by auto
qed

text \<open>The dihedral loop writes one slot only, whatever the number of dihedrals: the
  slots after it keep the measured values.\<close>

lemma wrap_targets_frame:
  assumes "wrap_targets ts n r = Inr r'"
  shows "length r' = length r \<and> (\<forall>j. j \<noteq> n \<longrightarrow> r' ! j = r ! j)"
  using assms
proof (induction ts arbitrary: r)
  case Nil
  then show ?case by simp
next
  case (Cons t ts)
  from Cons.prems have run: "wrap_targets ts n (r[n := wrap_dihedral (r ! n) t]) = Inr r'"
    by (auto split: if_splits)
  from Cons.IH[OF run] show ?case by auto
qed

lemma wrap_targets_single:
  assumes "wrap_targets [t] n r = Inr r'"
  shows "n < length r \<and> r' = r[n := wrap_dihedral (r ! n) t]"
  using assms by (auto split: if_splits)

lemma res_constr_single_dihedral:
  assumes c: "constraints s = Some c" and d: "dihedrals c = Some [(key, t)]"
    and run: "res_constr c2i s x = Inr (res, J)"
  shows "\<exists>pos raw J0 n. c2i pos (map fst (case bonds c of None \<Rightarrow> [] | Some l \<Rightarrow> l))
              (map fst (case angles c of None \<Rightarrow> [] | Some l \<Rightarrow> l)) [key] = Inr (raw, J0)
           \<and> n = length (case bonds c of None \<Rightarrow> [] | Some l \<Rightarrow> l)
                 + length (case angles c of None \<Rightarrow> [] | Some l \<Rightarrow> l)
           \<and> n < length raw \<and> length res = length raw
           \<and> res ! n = wrap_dihedral (raw ! n) t"
proof -
  let ?bl = "case bonds c of None \<Rightarrow> [] | Some l \<Rightarrow> l"
  let ?al = "case angles c of None \<Rightarrow> [] | Some l \<Rightarrow> l"
  from run c d obtain pos raw J0 n1 r1 n2 r2 where
    cl: "c2i pos (map fst ?bl) (map fst ?al) [key] = Inr (raw, J0)"
    and b: "sub_targets (map snd ?bl) 0 raw = Inr (n1, r1)"
    and a: "sub_targets (map snd ?al) n1 r1 = Inr (n2, r2)"
    and w: "wrap_targets [t] n2 r2 = Inr res"
    by (auto simp: res_constr_def Let_def split: sum.splits if_splits prod.splits)
  from sub_targets_frame[OF b] sub_targets_frame[OF a]
  have n2: "n2 = length ?bl + length ?al" and l: "length r2 = length raw"
    and same: "r2 ! n2 = raw ! n2"
    by auto
  from wrap_targets_single[OF w] have "n2 < length r2" "res = r2[n2 := wrap_dihedral (r2 ! n2) t]"
    by simp_all
  with cl n2 l same show ?thesis by auto
qed

lemma floor_minus_one: "- 1 \<le> x \<Longrightarrow> x < 0 \<Longrightarrow> \<lfloor>x :: real\<rfloor> = - 1"
  by linarith

lemma wrap_example: "wrap_dihedral (- (31 / 10)) 3 = 2 * pi - 61 / 10"
proof -
  have p: "3 \<le> pi" "pi < 4"
    using sin_x_le_x[of "pi / 6"] pi_less_4 by (simp_all add: sin_30)
  have "\<lfloor>(- (31 / 10) - 3 + pi) / (2 * pi)\<rfloor> = - 1"
  proof (rule floor_minus_one)
    show "- 1 \<le> (- (31 / 10) - 3 + pi) / (2 * pi)"
      using p by (simp add: field_simps)
    show "(- (31 / 10) - 3 + pi) / (2 * pi) < 0"
      using p by (simp add: field_simps)
  qed
  then show ?thesis
    by (simp add: wrap_dihedral_def np_mod_def)
qed

lemma wrap_boundary: "wrap_dihedral pi 0 = - pi"
  by (simp add: wrap_dihedral_def np_mod_def)

lemma pi_bounds: "3 \<le> pi" "pi < 4"
  using sin_x_le_x[of "pi / 6"] pi_less_4 by (simp_all add: sin_30)

lemma sin_poly5: "(\<Sum>m<5. sin_coeff m * x ^ m) = x - x ^ 3 / 6" for x :: real
proof -
  have "{..<5::nat} = {0, 1, 2, 3, 4}" by auto
  then show ?thesis
    by (simp add: sin_coeff_def fact_numeral)
qed

lemma pi_not_61_20: "pi \<noteq> 61 / 20"
proof
  assume e: "pi = 61 / 20"
  from sin_30 have s: "sin (61 / 120 :: real) = 1 / 2"
    by (simp add: e)
  have "\<bar>sin (61 / 120 :: real) - (\<Sum>m<5. sin_coeff m * (61 / 120) ^ m)\<bar>
          \<le> inverse (fact 5) * \<bar>61 / 120\<bar> ^ 5"
    by (rule Maclaurin_sin_bound)
  then show False
    unfolding s sin_poly5 by (simp add: fact_numeral power_divide)
qed

lemmas res_constr_eval = res_constr_def four_atoms_def c2i_const_def reshape3_def
  jacobian_unfixed_def chunks_def unfixed_def upt_conv_Cons

lemma res_constr_four_atoms:
  "res_constr (c2i_const m) (four_atoms t) [0, 0, 0, 1, 0, 0, 1, 1, 0, 1, 1, 1]
     = Inr ([wrap_dihedral m t], \<lparr>ncols = 12, rows = [[0, 0, 0, 0, 0, 0, 0, 0, 0, 0, 0, 0]]\<rparr>)"
  by (simp add: res_constr_eval)

text \<open>
  C4, as the code has it, in real arithmetic. With exactly one dihedral constraint, of
  target \<open>t\<close>, a call of \<open>res_constr\<close> that returns has put into the dihedral's slot (after
  the bonds and the angles) the value \<open>(m - t + \<pi>) mod 2\<pi> - \<pi>\<close>, where \<open>m\<close> is the
  value the external routine measured: it lies in \<open>[-\<pi>, \<pi>)\<close> and differs from \<open>m - t\<close>
  by a multiple of \<open>2\<pi>\<close>.
\<close>

theorem res_constr_wraps_dihedral:
  assumes "constraints s = Some c" and "dihedrals c = Some [(key, t)]"
    and "res_constr c2i s x = Inr (res, J)"
  shows "\<exists>pos raw J0 n. c2i pos (map fst (case bonds c of None \<Rightarrow> [] | Some l \<Rightarrow> l))
              (map fst (case angles c of None \<Rightarrow> [] | Some l \<Rightarrow> l)) [key] = Inr (raw, J0)
           \<and> n = length (case bonds c of None \<Rightarrow> [] | Some l \<Rightarrow> l)
                 + length (case angles c of None \<Rightarrow> [] | Some l \<Rightarrow> l)
           \<and> n < length raw \<and> length res = length raw
           \<and> res ! n = wrap_dihedral (raw ! n) t
           \<and> - pi \<le> res ! n \<and> res ! n < pi
           \<and> (\<exists>k::int. res ! n = raw ! n - t + 2 * pi * of_int k)"
proof -
  from res_constr_single_dihedral[OF assms] obtain pos raw J0 n where
    h: "c2i pos (map fst (case bonds c of None \<Rightarrow> [] | Some l \<Rightarrow> l))
              (map fst (case angles c of None \<Rightarrow> [] | Some l \<Rightarrow> l)) [key] = Inr (raw, J0)"
       "n = length (case bonds c of None \<Rightarrow> [] | Some l \<Rightarrow> l)
                 + length (case angles c of None \<Rightarrow> [] | Some l \<Rightarrow> l)"
       "n < length raw" "length res = length raw"
       "res ! n = wrap_dihedral (raw ! n) t"
    by blast
  from h(5) wrap_dihedral_range[of "raw ! n" t] wrap_dihedral_congruent[of "raw ! n" t]
  have "- pi \<le> res ! n \<and> res ! n < pi
        \<and> (\<exists>k::int. res ! n = raw ! n - t + 2 * pi * of_int k)"
    by simp
  with h show ?thesis by blast
qed

text \<open>
  C4, as the claim states it, fails twice. For target 3.0 and measured -3.1 the residual
  is \<open>2\<pi> - 6.1\<close> (measured minus target, reduced), not \<open>6.1 - 2\<pi>\<close>, which is
  \<open>3.0 - (-3.1)\<close> reduced into \<open>(-\<pi>, \<pi>]\<close>. For target 0 and measured \<open>\<pi>\<close> the residual
  is \<open>-\<pi>\<close>, which is not in \<open>(-\<pi>, \<pi>]\<close>.
\<close>

theorem res_constr_sign_and_interval:
  "map_sum id fst
     (res_constr (c2i_const (- 31 / 10)) (four_atoms 3) [0, 0, 0, 1, 0, 0, 1, 1, 0, 1, 1, 1])
     = Inr [2 * pi - 61 / 10]
   \<and> 61 / 10 - 2 * pi \<in> {- pi <.. pi}
   \<and> 2 * pi - 61 / 10 \<noteq> 61 / 10 - 2 * pi
   \<and> map_sum id fst
       (res_constr (c2i_const pi) (four_atoms 0) [0, 0, 0, 1, 0, 0, 1, 1, 0, 1, 1, 1])
       = Inr [- pi]
   \<and> - pi \<notin> {- pi <.. pi}"
  using pi_bounds pi_not_61_20
  by (simp add: res_constr_four_atoms wrap_example wrap_boundary)

theorem res_constr_wraps_dihedral_witness:
  "constraints (four_atoms 3)
     = Some \<lparr>fixed = None, bonds = None, angles = None, dihedrals = Some [([0, 1, 2, 3], 3)]\<rparr>
   \<and> res_constr (c2i_const (- 31 / 10)) (four_atoms 3) [0, 0, 0, 1, 0, 0, 1, 1, 0, 1, 1, 1]
       = Inr ([2 * pi - 61 / 10],
              \<lparr>ncols = 12, rows = [[0, 0, 0, 0, 0, 0, 0, 0, 0, 0, 0, 0]]\<rparr>)
   \<and> - pi \<le> [2 * pi - 61 / 10] ! 0 \<and> [2 * pi - 61 / 10] ! 0 < pi"
proof -
  let ?c = "\<lparr>fixed = None, bonds = None, angles = None, dihedrals = Some [([0, 1, 2, 3], 3)]\<rparr>"
  have h1: "constraints (four_atoms 3) = Some ?c"
    by (simp add: four_atoms_def)
  have h2: "dihedrals ?c = Some [([0, 1, 2, 3], 3)]"
    by simp
  have h3: "res_constr (c2i_const (- 31 / 10)) (four_atoms 3) [0, 0, 0, 1, 0, 0, 1, 1, 0, 1, 1, 1]
       = Inr ([2 * pi - 61 / 10],
              \<lparr>ncols = 12, rows = [[0, 0, 0, 0, 0, 0, 0, 0, 0, 0, 0, 0]]\<rparr>)"
    by (simp add: res_constr_four_atoms wrap_example)
  from res_constr_wraps_dihedral[OF h1 h2 h3]
  have "- pi \<le> [2 * pi - 61 / 10] ! 0 \<and> [2 * pi - 61 / 10] ! 0 < pi"
    by auto
  with h1 h3 show ?thesis by blast
qed

end
